theory Spec2Isabelle
  imports Main "HOL-Library.Word"
begin

unbundle bit_operations_syntax

section \<open>Errors and strings\<close>

text \<open>
  A Go \<open>error\<close> is represented by the text its \<open>Error()\<close> method returns: every error
  of the package is built by \<open>errors.New\<close> or \<open>fmt.Errorf\<close>, or comes from a collaborator
  (filesystem, shell, backend, template engine) and is only ever passed on, wrapped by
  string concatenation, or searched for a substring. Go strings are byte strings, as
  \<open>string\<close> is here. Calls to the \<open>log\<close> package are not modelled: they change neither
  the filesystem nor any returned value.
\<close>

type_synonym error = string

text \<open>A function that can panic (nil dereference) returns \<open>Panic\<close> instead of a value.\<close>

datatype 'a outcome = Panic | Return 'a

text \<open>\<open>strings.HasPrefix\<close>, \<open>strings.TrimPrefix\<close> and \<open>strings.Contains\<close> of the Go library.\<close>

definition HasPrefix :: "string \<Rightarrow> string \<Rightarrow> bool" where
  "HasPrefix s p = (take (length p) s = p)"

definition TrimPrefix :: "string \<Rightarrow> string \<Rightarrow> string" where
  "TrimPrefix s p = (if HasPrefix s p then drop (length p) s else s)"

fun Contains :: "string \<Rightarrow> string \<Rightarrow> bool" where
  "Contains [] substr = (substr = [])"
| "Contains (c # s) substr = (HasPrefix (c # s) substr \<or> Contains s substr)"

declare Contains.simps [simp del]

text \<open>\<open>strings.Join\<close>.\<close>

fun strings_Join :: "string list \<Rightarrow> string \<Rightarrow> string" where
  "strings_Join [] sep = []"
| "strings_Join [e] sep = e"
| "strings_Join (e # es) sep = e @ sep @ strings_Join es sep"

section \<open>Lexical paths: \<open>path.Clean\<close>, \<open>path.Join\<close>, \<open>filepath.Dir\<close>, \<open>filepath.Base\<close>\<close>

text \<open>
  The Go library's \<open>Clean\<close> scans the path once, writing to an output buffer \<open>out\<close>;
  \<open>dotdot\<close> is the length of the buffer below which \<open>..\<close> cannot backtrack. The
  separator is \<open>/\<close> (the build is \<open>!windows\<close>), so \<open>filepath.Clean\<close> and
  \<open>filepath.Join\<close> are \<open>path.Clean\<close> and \<open>path.Join\<close>.
\<close>

text \<open>The inner loop of the \<open>..\<close> case: \<open>for out.w > dotdot && out.index(out.w) != '/' { out.w-- }\<close>.\<close>

fun backtrack :: "nat \<Rightarrow> string \<Rightarrow> nat \<Rightarrow> nat" where
  "backtrack dotdot out 0 = 0"
| "backtrack dotdot out (Suc w) =
     (if Suc w > dotdot \<and> out ! Suc w \<noteq> CHR ''/'' then backtrack dotdot out w else Suc w)"

function Clean_loop :: "bool \<Rightarrow> nat \<Rightarrow> string \<Rightarrow> string \<Rightarrow> string" where
  "Clean_loop rooted dotdot out [] = out"
| "Clean_loop rooted dotdot out (c # rest) =
     (if c = CHR ''/'' then Clean_loop rooted dotdot out rest
      else if c = CHR ''.'' \<and> (rest = [] \<or> hd rest = CHR ''/'') then
        Clean_loop rooted dotdot out rest
      else if c = CHR ''.'' \<and> rest \<noteq> [] \<and> hd rest = CHR ''.'' \<and>
              (tl rest = [] \<or> hd (tl rest) = CHR ''/'') then
        (if length out > dotdot then
           Clean_loop rooted dotdot (take (backtrack dotdot out (length out - 1)) out) (tl rest)
         else if \<not> rooted then
           (let out' = (if length out > 0 then out @ ''/'' else out) @ ''..''
            in Clean_loop rooted (length out') out' (tl rest))
         else Clean_loop rooted dotdot out (tl rest))
      else
        (let out' = (if rooted \<and> length out \<noteq> 1 \<or> \<not> rooted \<and> length out \<noteq> 0
                     then out @ ''/'' else out)
         in Clean_loop rooted dotdot (out' @ takeWhile (\<lambda>x. x \<noteq> CHR ''/'') (c # rest))
              (dropWhile (\<lambda>x. x \<noteq> CHR ''/'') (c # rest))))"
  by pat_completeness auto
termination
  by (relation "measure (\<lambda>(rooted, dotdot, out, rest). length rest)")
     (auto simp: le_imp_less_Suc length_dropWhile_le)

definition Clean :: "string \<Rightarrow> string" where
  "Clean path =
     (if path = [] then ''.''
      else
        (let rooted = (hd path = CHR ''/'');
             out = (if rooted
                    then Clean_loop True 1 ''/'' (tl path)
                    else Clean_loop False 0 [] path)
         in if out = [] then ''.'' else out))"

text \<open>\<open>Join\<close> drops leading empty elements, joins the rest with \<open>/\<close> and cleans the result.\<close>

definition Join :: "string list \<Rightarrow> string" where
  "Join elem =
     (case dropWhile (\<lambda>e. e = []) elem of
        [] \<Rightarrow> []
      | es \<Rightarrow> Clean (strings_Join es ''/''))"

text \<open>\<open>filepath.Base\<close>: strip trailing slashes, then keep what follows the last slash.\<close>

definition Base :: "string \<Rightarrow> string" where
  "Base path =
     (if path = [] then ''.''
      else
        (let p = rev (dropWhile (\<lambda>x. x = CHR ''/'') (rev path));
             e = rev (takeWhile (\<lambda>x. x \<noteq> CHR ''/'') (rev p))
         in if e = [] then ''/'' else e))"

text \<open>\<open>filepath.Dir\<close>: everything up to and including the last slash, cleaned.\<close>

definition Dir :: "string \<Rightarrow> string" where
  "Dir path = Clean (rev (dropWhile (\<lambda>x. x \<noteq> CHR ''/'') (rev path)))"

section \<open>Names of files in \<open>io/fs\<close>: \<open>fs.ValidPath\<close>\<close>

text \<open>
  \<open>utf8.ValidString\<close>. \<open>first b\<close> stands for the library's tables \<open>first\<close> and
  \<open>acceptRanges\<close>: for a byte that can start an encoding, the length of the encoding and
  the range its second byte must lie in; every further byte must lie in \<open>0x80..0xBF\<close>.
\<close>

fun first :: "nat \<Rightarrow> (nat \<times> nat \<times> nat) option" where
  "first b =
     (if b < 0x80 then Some (1, 0, 0)
      else if b < 0xC2 then None
      else if b < 0xE0 then Some (2, 0x80, 0xBF)
      else if b = 0xE0 then Some (3, 0xA0, 0xBF)
      else if b < 0xED then Some (3, 0x80, 0xBF)
      else if b = 0xED then Some (3, 0x80, 0x9F)
      else if b < 0xF0 then Some (3, 0x80, 0xBF)
      else if b = 0xF0 then Some (4, 0x90, 0xBF)
      else if b < 0xF4 then Some (4, 0x80, 0xBF)
      else if b = 0xF4 then Some (4, 0x80, 0x8F)
      else None)"

declare first.simps [simp del]

definition between :: "nat \<Rightarrow> nat \<Rightarrow> char \<Rightarrow> bool" where
  "between lo hi c = (lo \<le> of_char c \<and> (of_char c :: nat) \<le> hi)"

fun ValidString :: "string \<Rightarrow> bool" where
  "ValidString [] = True"
| "ValidString (c # cs) =
     (case first (of_char c) of
        None \<Rightarrow> False
      | Some (n, lo, hi) \<Rightarrow>
          if n = 1 then ValidString cs
          else if length cs < n - 1 then False
          else if \<not> between lo hi (cs ! 0) then False
          else if \<not> list_all (between 0x80 0xBF) (take (n - 2) (drop 1 cs)) then False
          else ValidString (drop (n - 1) cs))"

declare ValidString.simps [simp del]

text \<open>
  \<open>fs.ValidPath\<close>: valid UTF-8, and either \<open>.\<close> alone or elements separated by single
  slashes, none of them empty, \<open>.\<close> or \<open>..\<close>; so a rooted name, and one that ends in a
  slash, is not valid. \<open>ValidPath_loop\<close> is the loop over the elements.
\<close>

function ValidPath_loop :: "string \<Rightarrow> bool" where
  "ValidPath_loop name =
     (let elem = takeWhile (\<lambda>c. c \<noteq> CHR ''/'') name
      in if elem = [] \<or> elem = ''.'' \<or> elem = ''..'' then False
         else if length elem = length name then True
         else ValidPath_loop (drop (length elem + 1) name))"
  by pat_completeness auto
termination
  by (relation "measure length") (auto simp: takeWhile_eq_Nil_iff)

declare ValidPath_loop.simps [simp del]

definition ValidPath :: "string \<Rightarrow> bool" where
  "ValidPath name = (ValidString name \<and> (name = ''.'' \<or> ValidPath_loop name))"

text \<open>
  A pattern has a metacharacter when it contains one of \<open>*\<close>, \<open>?\<close>, \<open>[\<close> and the
  backslash. A pattern without one is well formed and matches the file of that name only.
\<close>

definition hasMeta :: "string \<Rightarrow> bool" where
  "hasMeta pattern = (\<exists>c \<in> set pattern. c \<in> {CHR ''*'', CHR ''?'', CHR ''['', CHR 0x5C})"

text \<open>The text of an \<open>fs.PathError\<close>, and of \<open>fs.ErrInvalid\<close>.\<close>

definition PathError :: "string \<Rightarrow> string \<Rightarrow> error \<Rightarrow> error" where
  "PathError op path err = op @ '' '' @ path @ '': '' @ err"

definition ErrInvalid :: error where
  "ErrInvalid = ''invalid argument''"

section \<open>Numbers from strings: \<open>strconv\<close>\<close>

text \<open>
  \<open>strconv.Quote\<close> for the message of a \<open>strconv.NumError\<close>: exact on ASCII; a byte
  from \<open>0x80\<close> up is copied as it is (the library decodes UTF-8 there and escapes what
  is not printable).
\<close>

definition hexdigit :: "nat \<Rightarrow> char" where
  "hexdigit n = ''0123456789abcdef'' ! (n mod 16)"

definition quote_byte :: "char \<Rightarrow> string" where
  "quote_byte c =
     (let n = (of_char c :: nat) in
      if n = 0x22 then [CHR 0x5C, CHR 0x22]
      else if n = 0x5C then [CHR 0x5C, CHR 0x5C]
      else if n = 7 then [CHR 0x5C, CHR ''a'']
      else if n = 8 then [CHR 0x5C, CHR ''b'']
      else if n = 12 then [CHR 0x5C, CHR ''f'']
      else if n = 10 then [CHR 0x5C, CHR ''n'']
      else if n = 13 then [CHR 0x5C, CHR ''r'']
      else if n = 9 then [CHR 0x5C, CHR ''t'']
      else if n = 11 then [CHR 0x5C, CHR ''v'']
      else if n < 0x20 \<or> n = 0x7F then [CHR 0x5C, CHR ''x'', hexdigit (n div 16), hexdigit n]
      else [c])"

definition Quote :: "string \<Rightarrow> string" where
  "Quote s = [CHR 0x22] @ concat (map quote_byte s) @ [CHR 0x22]"

definition syntaxError :: "string \<Rightarrow> string \<Rightarrow> error" where
  "syntaxError fn str = ''strconv.'' @ fn @ '': parsing '' @ Quote str @ '': invalid syntax''"

definition rangeError :: "string \<Rightarrow> string \<Rightarrow> error" where
  "rangeError fn str = ''strconv.'' @ fn @ '': parsing '' @ Quote str @ '': value out of range''"

text \<open>Bytes as \<open>8 word\<close>; \<open>lower(c)\<close> is \<open>c | ('x' - 'X')\<close>.\<close>

definition byte :: "char \<Rightarrow> 8 word" where
  "byte c = of_char c"

definition lower :: "char \<Rightarrow> 8 word" where
  "lower c = byte c OR 0x20"

text \<open>
  \<open>underscoreOK\<close>: underscores may appear only between digits, or between a base prefix
  and a digit. \<open>saw\<close> is the last character class seen: \<open>^\<close> the beginning, \<open>0\<close> a digit
  or base prefix, \<open>_\<close> an underscore, \<open>!\<close> anything else.
\<close>

fun underscoreOK_loop :: "bool \<Rightarrow> char \<Rightarrow> string \<Rightarrow> bool" where
  "underscoreOK_loop hex saw [] = (saw \<noteq> CHR ''_'')"
| "underscoreOK_loop hex saw (c # cs) =
     (if (0x30 \<le> byte c \<and> byte c \<le> 0x39) \<or> (hex \<and> 0x61 \<le> lower c \<and> lower c \<le> 0x66) then
        underscoreOK_loop hex (CHR ''0'') cs
      else if c = CHR ''_'' then
        (if saw \<noteq> CHR ''0'' then False else underscoreOK_loop hex (CHR ''_'') cs)
      else if saw = CHR ''_'' then False
      else underscoreOK_loop hex (CHR ''!'') cs)"

definition underscoreOK :: "string \<Rightarrow> bool" where
  "underscoreOK s0 =
     (let s = (if length s0 \<ge> 1 \<and> (hd s0 = CHR ''-'' \<or> hd s0 = CHR ''+'') then tl s0 else s0)
      in if length s \<ge> 2 \<and> s ! 0 = CHR ''0'' \<and>
            (lower (s ! 1) = 0x62 \<or> lower (s ! 1) = 0x6F \<or> lower (s ! 1) = 0x78)
         then underscoreOK_loop (lower (s ! 1) = 0x78) (CHR ''0'') (drop 2 s)
         else underscoreOK_loop False (CHR ''^'') s)"

text \<open>
  \<open>strconv.ParseUint(s, 0, 32)\<close>, the one way the package calls it: base 0 takes the base
  from the prefix (\<open>0b\<close>, \<open>0o\<close>, \<open>0x\<close>, a bare leading \<open>0\<close> for octal, decimal otherwise)
  and allows underscores; 32 bits bound the value by \<open>maxVal\<close>. The accumulator is a
  \<open>uint64\<close>. The loop returns the value and whether an underscore was seen.
\<close>

fun ParseUint_loop :: "string \<Rightarrow> 64 word \<Rightarrow> 64 word \<Rightarrow> 64 word \<Rightarrow> bool \<Rightarrow> 64 word \<Rightarrow> string
    \<Rightarrow> error + (64 word \<times> bool)" where
  "ParseUint_loop s0 base cutoff maxVal underscores n [] = Inr (n, underscores)"
| "ParseUint_loop s0 base cutoff maxVal underscores n (c # cs) =
     (if c = CHR ''_'' then ParseUint_loop s0 base cutoff maxVal True n cs
      else if \<not> ((0x30 \<le> byte c \<and> byte c \<le> 0x39) \<or> (0x61 \<le> lower c \<and> lower c \<le> 0x7A)) then
        Inl (syntaxError ''ParseUint'' s0)
      else
        (let d = (if 0x30 \<le> byte c \<and> byte c \<le> 0x39 then byte c - 0x30 else lower c - 0x61 + 10)
         in if (ucast d :: 64 word) \<ge> base then Inl (syntaxError ''ParseUint'' s0)
            else if n \<ge> cutoff then Inl (rangeError ''ParseUint'' s0)
            else
              (let n' = n * base; n1 = n' + ucast d
               in if n1 < n' \<or> n1 > maxVal then Inl (rangeError ''ParseUint'' s0)
                  else ParseUint_loop s0 base cutoff maxVal underscores n1 cs)))"

definition ParseUint :: "string \<Rightarrow> error + 64 word" where
  "ParseUint s0 =
     (if s0 = [] then Inl (syntaxError ''ParseUint'' s0)
      else
        (let (base, s) =
               (if hd s0 = CHR ''0'' then
                  (if length s0 \<ge> 3 \<and> lower (s0 ! 1) = 0x62 then (2 :: 64 word, drop 2 s0)
                   else if length s0 \<ge> 3 \<and> lower (s0 ! 1) = 0x6F then (8, drop 2 s0)
                   else if length s0 \<ge> 3 \<and> lower (s0 ! 1) = 0x78 then (16, drop 2 s0)
                   else (8, drop 1 s0))
                else (10, s0));
             cutoff = (- 1) div base + 1;
             maxVal = push_bit 32 1 - 1
         in case ParseUint_loop s0 base cutoff maxVal False 0 s of
              Inl e \<Rightarrow> Inl e
            | Inr (n, underscores) \<Rightarrow>
                if underscores \<and> \<not> underscoreOK s0 then Inl (syntaxError ''ParseUint'' s0)
                else Inr n))"

text \<open>
  The number a string of octal digits denotes, most significant digit first; it states
  what \<open>ParseUint\<close> is expected to read from a mode such as \<open>0644\<close>.
\<close>

fun octal_from :: "nat \<Rightarrow> string \<Rightarrow> nat" where
  "octal_from n [] = n"
| "octal_from n (c # cs) = octal_from (n * 8 + (of_char c - 48)) cs"

definition octal :: "string \<Rightarrow> nat" where
  "octal ds = octal_from 0 ds"

text \<open>
  \<open>strconv.Atoi\<close>: an optional sign and decimal digits, no underscores. The digits are
  accumulated as \<open>ParseUint(s, 10, 64)\<close> does (the first bad byte is a syntax error unless
  the value left the \<open>uint64\<close> range before it), then checked against the \<open>int64\<close>
  range. Go's fast path for short strings gives the same results.
\<close>

fun Atoi_loop :: "string \<Rightarrow> nat \<Rightarrow> string \<Rightarrow> error + nat" where
  "Atoi_loop s0 n [] = Inr n"
| "Atoi_loop s0 n (c # cs) =
     (if \<not> (0x30 \<le> byte c \<and> byte c \<le> 0x39) then Inl (syntaxError ''Atoi'' s0)
      else
        (let n1 = n * 10 + unat (byte c - 0x30)
         in if n1 \<ge> 2 ^ 64 then Inl (rangeError ''Atoi'' s0) else Atoi_loop s0 n1 cs))"

definition Atoi :: "string \<Rightarrow> error + int" where
  "Atoi s0 =
     (if s0 = [] then Inl (syntaxError ''Atoi'' s0)
      else
        (let neg = (hd s0 = CHR ''-'');
             s = (if hd s0 = CHR ''+'' \<or> hd s0 = CHR ''-'' then tl s0 else s0)
         in if s = [] then Inl (syntaxError ''Atoi'' s0)
            else
              (case Atoi_loop s0 0 s of
                 Inl e \<Rightarrow> Inl e
               | Inr un \<Rightarrow>
                   if \<not> neg \<and> un \<ge> 2 ^ 63 then Inl (rangeError ''Atoi'' s0)
                   else if neg \<and> un > 2 ^ 63 then Inl (rangeError ''Atoi'' s0)
                   else Inr (if neg then - int un else int un))))"

section \<open>The filesystem\<close>

text \<open>
  The package reaches files only through the \<open>afero.Fs\<close> interface. The model is a map
  from path to file (an \<open>inode\<close>), each with its bytes, permission bits and owner, as an
  OS-backed filesystem has them (\<open>FileStat\<close> reads \<open>syscall.Stat_t\<close>).
\<close>

record inode =
  content :: string
  mode :: "32 word"
  uid :: int
  gid :: int

type_synonym fs = "string \<rightharpoonup> inode"

text \<open>\<open>util.FileInfo\<close>, with the fields \<open>FileStat\<close> fills in.\<close>

record FileInfo =
  Uid :: "32 word"
  Gid :: "32 word"
  Mode :: "32 word"
  Md5 :: string

section \<open>Configuration and the template resource\<close>

text \<open>
  \<open>backends.StoreClient\<close> is an interface with the method \<open>GetValues\<close>; a client is that
  method, and \<open>None\<close> is the nil interface. The map it returns is given as the list of its
  entries in the order a \<open>range\<close> loop visits them, which Go leaves unspecified.
\<close>

type_synonym StoreClient = "string list \<Rightarrow> error + (string \<times> string) list"

record Config =
  ConfDir :: string
  ConfigDir :: string
  KeepStageFile :: bool
  Noop :: bool
  Prefix :: string
  StoreClient :: "StoreClient option"
  SyncOnly :: bool
  TemplateDir :: string

text \<open>
  \<open>StageFile\<close> is the name of the staged file's handle, \<open>None\<close> for a nil handle.
  \<open>Store\<close> is the \<open>memkv.Store\<close>, a map from key to value. The fields \<open>funcMap\<close> and \<open>fs\<close>
  have no counterpart: the template functions are part of the template engine below, and
  the filesystem is passed explicitly.
\<close>

record TemplateResource =
  CheckCmd :: string
  Dest :: string
  FileMode :: "32 word"
  Gid :: int
  Group :: string
  Keys :: "string list"
  Mode :: string
  Owner :: string
  Prefix :: string
  ReloadCmd :: string
  Src :: string
  StageFile :: "string option"
  Uid :: int
  lastIndex :: "64 word"
  keepStageFile :: bool
  noop :: bool
  Store :: "string \<rightharpoonup> string"
  storeClient :: "StoreClient option"
  syncOnly :: bool

section \<open>The environment\<close>

text \<open>
  Everything the package calls and does not define is a field of the environment:
  \<^item> the process: effective ids, umask, the default temporary directory, the random
    names \<open>afero.TempFile\<close> draws (\<open>nextRandom env i\<close> is the \<open>i\<close>-th draw);
  \<^item> the failures the filesystem may report: opening a file for reading, opening or
    creating it for writing, a short write (the bytes written and the error), rename,
    remove, chmod, chown. Looking up a path that is present and reading through an open
    handle do not fail;
  \<^item> \<open>md5_hex\<close>, the hexadecimal MD5 digest of a byte string;
  \<^item> the shell: \<open>sh env fs cmd\<close> is the error of running \<open>cmd\<close>, \<open>None\<close> for exit status 0.
    A command is another process; what it does to files is outside the model;
  \<^item> the \<open>text/template\<close> engine: parsing a template (by name and text, or from files
    matching a pattern), and executing one, with the store its functions read
    (if any) and the data passed (if any), giving the bytes written and the error;
  \<^item> the TOML decoder, which fills a resource from a descriptor file, and the user and
    group databases, which give an id as a decimal string. The engine and the decoder
    read their files through \<open>afero.NewIOFS\<close>, modelled below; \<open>iofs_op\<close> is the
    operation that adapter names in its error when it refuses to read a file;
  \<^item> \<open>util.IsConfigChanged\<close> (\<open>util.go\<close> is not among the sources): it reads the two
    files and answers whether they differ, with an error if it could not tell.
\<close>

record env =
  Geteuid :: int
  Getegid :: int
  umask :: "32 word"
  TempDir :: string
  nextRandom :: "nat \<Rightarrow> string"
  open_err :: "string \<Rightarrow> error option"
  create_err :: "string \<Rightarrow> error option"
  write_err :: "string \<Rightarrow> string \<Rightarrow> (nat \<times> error) option"
  rename_err :: "string \<Rightarrow> string \<Rightarrow> error option"
  remove_err :: "string \<Rightarrow> error option"
  chmod_err :: "string \<Rightarrow> error option"
  chown_err :: "string \<Rightarrow> error option"
  md5_hex :: "string \<Rightarrow> string"
  sh :: "fs \<Rightarrow> string \<Rightarrow> error option"
  template_Parse :: "string \<Rightarrow> string \<Rightarrow> error + string"
  template_ParseFS :: "fs \<Rightarrow> string \<Rightarrow> string \<Rightarrow> error + string"
  iofs_op :: string
  template_Execute :: "string \<Rightarrow> (string \<rightharpoonup> string) option \<Rightarrow> (string \<rightharpoonup> string) option
                         \<Rightarrow> string \<times> error option"
  toml_DecodeFS :: "fs \<Rightarrow> string \<Rightarrow> TemplateResource \<Rightarrow> error + TemplateResource"
  user_Lookup :: "string \<Rightarrow> error + string"
  user_LookupGroup :: "string \<Rightarrow> error + string"
  IsConfigChanged :: "fs \<Rightarrow> string \<Rightarrow> string \<Rightarrow> bool \<times> error option"

subsection \<open>Filesystem operations\<close>

definition ErrNotExist :: "string \<Rightarrow> string \<Rightarrow> error" where
  "ErrNotExist op name = op @ '' '' @ name @ '': no such file or directory''"

definition new_file :: "env \<Rightarrow> 32 word \<Rightarrow> inode" where
  "new_file env perm =
     \<lparr>content = [], mode = perm AND NOT (umask env), uid = Geteuid env, gid = Getegid env\<rparr>"

definition Stat :: "fs \<Rightarrow> string \<Rightarrow> error + inode" where
  "Stat fs name = (case fs name of None \<Rightarrow> Inl (ErrNotExist ''stat'' name) | Some f \<Rightarrow> Inr f)"

definition Open :: "env \<Rightarrow> fs \<Rightarrow> string \<Rightarrow> error + inode" where
  "Open env fs name =
     (case open_err env name of
        Some err \<Rightarrow> Inl err
      | None \<Rightarrow> (case fs name of None \<Rightarrow> Inl (ErrNotExist ''open'' name) | Some f \<Rightarrow> Inr f))"

definition Remove :: "env \<Rightarrow> fs \<Rightarrow> string \<Rightarrow> fs \<times> error option" where
  "Remove env fs name =
     (case remove_err env name of
        Some err \<Rightarrow> (fs, Some err)
      | None \<Rightarrow>
          (case fs name of
             None \<Rightarrow> (fs, Some (ErrNotExist ''remove'' name))
           | Some f \<Rightarrow> (fs(name := None), None)))"

definition Rename :: "env \<Rightarrow> fs \<Rightarrow> string \<Rightarrow> string \<Rightarrow> fs \<times> error option" where
  "Rename env fs oldname newname =
     (case rename_err env oldname newname of
        Some err \<Rightarrow> (fs, Some err)
      | None \<Rightarrow>
          (case fs oldname of
             None \<Rightarrow> (fs, Some (ErrNotExist ''rename'' (oldname @ '' '' @ newname)))
           | Some f \<Rightarrow> ((fs(oldname := None))(newname \<mapsto> f), None)))"

definition Chmod :: "env \<Rightarrow> fs \<Rightarrow> string \<Rightarrow> 32 word \<Rightarrow> fs \<times> error option" where
  "Chmod env fs name m =
     (case chmod_err env name of
        Some err \<Rightarrow> (fs, Some err)
      | None \<Rightarrow>
          (case fs name of
             None \<Rightarrow> (fs, Some (ErrNotExist ''chmod'' name))
           | Some f \<Rightarrow> (fs(name \<mapsto> f\<lparr>mode := m\<rparr>), None)))"

text \<open>\<open>Chown\<close>: an id of \<open>-1\<close> leaves that id as it is.\<close>

definition Chown :: "env \<Rightarrow> fs \<Rightarrow> string \<Rightarrow> int \<Rightarrow> int \<Rightarrow> fs \<times> error option" where
  "Chown env fs name u g =
     (case chown_err env name of
        Some err \<Rightarrow> (fs, Some err)
      | None \<Rightarrow>
          (case fs name of
             None \<Rightarrow> (fs, Some (ErrNotExist ''chown'' name))
           | Some f \<Rightarrow>
               (fs(name \<mapsto> f\<lparr>uid := (if u = - 1 then uid f else u),
                              gid := (if g = - 1 then gid f else g)\<rparr>), None)))"

text \<open>\<open>afero.ReadFile\<close>: open the file and read all of it.\<close>

definition ReadFile :: "env \<Rightarrow> fs \<Rightarrow> string \<Rightarrow> error + string" where
  "ReadFile env fs name =
     (case Open env fs name of Inl err \<Rightarrow> Inl err | Inr f \<Rightarrow> Inr (content f))"

text \<open>
  \<open>afero.WriteFile\<close>: open with \<open>O_WRONLY|O_CREATE|O_TRUNC\<close> (the permission applies only to
  a file that is created), write the data, close. A failed write leaves what was written.
\<close>

definition WriteFile :: "env \<Rightarrow> fs \<Rightarrow> string \<Rightarrow> string \<Rightarrow> 32 word \<Rightarrow> fs \<times> error option" where
  "WriteFile env fs name data perm =
     (case create_err env name of
        Some err \<Rightarrow> (fs, Some err)
      | None \<Rightarrow>
          (let f = (case fs name of None \<Rightarrow> new_file env perm | Some f \<Rightarrow> f\<lparr>content := []\<rparr>)
           in case write_err env name data of
                Some (n, err) \<Rightarrow> (fs(name \<mapsto> f\<lparr>content := take n data\<rparr>), Some err)
              | None \<Rightarrow> (fs(name \<mapsto> f\<lparr>content := data\<rparr>), None)))"

text \<open>Writing through an open handle appends to the file it names.\<close>

definition Write :: "fs \<Rightarrow> string \<Rightarrow> string \<Rightarrow> fs" where
  "Write fs name data =
     (case fs name of None \<Rightarrow> fs | Some f \<Rightarrow> fs(name \<mapsto> f\<lparr>content := content f @ data\<rparr>))"

text \<open>
  \<open>afero.TempFile\<close>: up to 10000 attempts to create, with \<open>O_EXCL\<close> and permission
  \<open>0600\<close>, a file named by the pattern with a random string in place of its last \<open>*\<close>
  (appended when there is none). A name that exists is skipped; any other failure ends
  the loop. \<open>err\<close> is the error of the last attempt.
\<close>

definition prefixAndSuffix :: "string \<Rightarrow> string \<times> string" where
  "prefixAndSuffix pattern =
     (if CHR ''*'' \<in> set pattern
      then (rev (tl (dropWhile (\<lambda>x. x \<noteq> CHR ''*'') (rev pattern))),
            rev (takeWhile (\<lambda>x. x \<noteq> CHR ''*'') (rev pattern)))
      else (pattern, []))"

function TempFile_loop :: "env \<Rightarrow> fs \<Rightarrow> string \<Rightarrow> string \<Rightarrow> string \<Rightarrow> nat \<Rightarrow> error
    \<Rightarrow> fs \<times> (error + string)" where
  "TempFile_loop env fs dir pre suf i err =
     (if i < 10000 then
        (let name = Join [dir, pre @ nextRandom env i @ suf]
         in if fs name \<noteq> None then
              TempFile_loop env fs dir pre suf (i + 1) (''open '' @ name @ '': file exists'')
            else
              (case create_err env name of
                 Some e \<Rightarrow> (fs, Inl e)
               | None \<Rightarrow> (fs(name \<mapsto> new_file env 0x180), Inr name)))
      else (fs, Inl err))"
  by pat_completeness auto
termination
  by (relation "measure (\<lambda>(env, fs, dir, pre, suf, i, err). 10000 - i)") auto

declare TempFile_loop.simps [simp del]

definition TempFile :: "env \<Rightarrow> fs \<Rightarrow> string \<Rightarrow> string \<Rightarrow> fs \<times> (error + string)" where
  "TempFile env fs dir pattern =
     (let dir' = (if dir = [] then TempDir env else dir);
          (pre, suf) = prefixAndSuffix pattern
      in TempFile_loop env fs dir' pre suf 0 [])"

subsection \<open>Reading through \<open>afero.NewIOFS\<close>\<close>

text \<open>
  \<open>toml.DecodeFS\<close> opens the descriptor with the \<open>Open\<close> of the adapter, which follows
  the convention of \<open>io/fs\<close> and refuses a name that is not a valid path with
  \<open>fs.ErrInvalid\<close>; the decoder returns that error as it is.
\<close>

definition DecodeFS :: "env \<Rightarrow> fs \<Rightarrow> string \<Rightarrow> TemplateResource \<Rightarrow> error + TemplateResource" where
  "DecodeFS env fs path tc =
     (if \<not> ValidPath path then Inl (PathError ''open'' path ErrInvalid)
      else toml_DecodeFS env fs path tc)"

text \<open>
  \<open>ParseFS\<close> of \<open>text/template\<close> reads the files the pattern matches. A pattern
  without metacharacters that names a file matches that file alone, and the adapter
  refuses to read it when the name is not a valid path: the template directory and the
  template's name must make up a path that is not rooted. Everything else is the
  engine's: what it makes of the file, and for a pattern with metacharacters which
  files match.
\<close>

definition ParseFS :: "env \<Rightarrow> fs \<Rightarrow> string \<Rightarrow> string \<Rightarrow> error + string" where
  "ParseFS env fs name pattern =
     (if \<not> hasMeta pattern \<and> fs pattern \<noteq> None \<and> \<not> ValidPath pattern
      then Inl (PathError (iofs_op env) pattern ErrInvalid)
      else template_ParseFS env fs name pattern)"

section \<open>Package \<open>util\<close>\<close>

text \<open>
  Modelled from the spec: \<open>util.IsFileExist\<close> (\<open>util.go\<close> is not among the sources). The
  spec only speaks of a file that exists or does not.
\<close>

definition IsFileExist :: "fs \<Rightarrow> string \<Rightarrow> bool" where
  "IsFileExist fs fpath = (fs fpath \<noteq> None)"

text \<open>
  Modelled from the spec: \<open>util.AppendPrefix\<close> (\<open>util.go\<close> is not among the sources), which
  gives the "prefix-qualified keys" passed to the backend.
\<close>

definition AppendPrefix :: "string \<Rightarrow> string list \<Rightarrow> string list" where
  "AppendPrefix prefix keys = map (\<lambda>k. Join [prefix, k]) keys"

text \<open>
  \<open>FileStat\<close> (\<open>filestat_posix.go\<close>) returns the owner, mode and MD5 digest of the named
  file; on failure, the zero \<open>FileInfo\<close> and the error.
\<close>

definition FileInfo_zero :: FileInfo where
  "FileInfo_zero = \<lparr>FileInfo.Uid = 0, FileInfo.Gid = 0, FileInfo.Mode = 0, Md5 = []\<rparr>"

definition FileStat :: "env \<Rightarrow> fs \<Rightarrow> string \<Rightarrow> FileInfo \<times> error option" where
  "FileStat env fs name =
     (if IsFileExist fs name then
        (case Open env fs name of
           Inl err \<Rightarrow> (FileInfo_zero, Some err)
         | Inr f \<Rightarrow>
             (\<lparr>FileInfo.Uid = word_of_int (uid f), FileInfo.Gid = word_of_int (gid f),
               FileInfo.Mode = mode f, Md5 = md5_hex env (content f)\<rparr>, None))
      else (FileInfo_zero, Some ''File not found''))"

text \<open>
  Modelled from the spec: \<open>util.IsConfigChanged\<close> (\<open>util.go\<close> is not among the sources).
  "If the destination does not exist, candidates are always considered different. If it
  exists, computation is by content fingerprint (cryptographic digest) of both files'
  bytes plus nothing else"; "equality of fingerprint" is "unchanged". The fingerprints
  are those of \<open>FileStat\<close>. The spec does not say which answer accompanies an error; it
  is "changed" here, and no theorem below depends on it.
\<close>

definition IsConfigChanged_spec :: "env \<Rightarrow> fs \<Rightarrow> string \<Rightarrow> string \<Rightarrow> bool \<times> error option" where
  "IsConfigChanged_spec env fs src dest =
     (if \<not> IsFileExist fs dest then (True, None)
      else
        (case FileStat env fs dest of
           (d, Some err) \<Rightarrow> (True, Some err)
         | (d, None) \<Rightarrow>
             (case FileStat env fs src of
                (s, Some err) \<Rightarrow> (True, Some err)
              | (s, None) \<Rightarrow> (Md5 d \<noteq> Md5 s, None))))"

section \<open>Package \<open>template\<close>: the resource\<close>

definition ErrEmptySrc :: error where
  "ErrEmptySrc = ''empty src template''"

text \<open>\<open>memkv.Store\<close>: \<open>Purge\<close> deletes every key, \<open>Set\<close> stores one.\<close>

definition Purge :: "(string \<rightharpoonup> string) \<Rightarrow> (string \<rightharpoonup> string)" where
  "Purge store = Map.empty"

definition Set_kv :: "(string \<rightharpoonup> string) \<Rightarrow> string \<Rightarrow> string \<Rightarrow> (string \<rightharpoonup> string)" where
  "Set_kv store key v = store(key \<mapsto> v)"

text \<open>The resource the decoder starts from: every field zero but \<open>Uid\<close> and \<open>Gid\<close>.\<close>

definition TemplateResource_init :: TemplateResource where
  "TemplateResource_init =
     \<lparr>CheckCmd = [], Dest = [], FileMode = 0, Gid = - 1, Group = [], Keys = [], Mode = [],
      Owner = [], Prefix = [], ReloadCmd = [], Src = [], StageFile = None, Uid = - 1,
      lastIndex = 0, keepStageFile = False, noop = False, Store = Map.empty,
      storeClient = None, syncOnly = False\<rparr>"

text \<open>The two blocks of \<open>NewTemplateResource\<close> that resolve \<open>Uid\<close> and \<open>Gid\<close>.\<close>

definition resolve_Uid :: "env \<Rightarrow> TemplateResource \<Rightarrow> error + TemplateResource" where
  "resolve_Uid env tr =
     (if Uid tr = - 1 then
        (if Owner tr \<noteq> [] then
           (case user_Lookup env (Owner tr) of
              Inl err \<Rightarrow> Inl (''Cannot find owner'' @ [CHR 0x27] @ ''s UID - '' @ err)
            | Inr u \<Rightarrow>
                (case Atoi u of
                   Inl err \<Rightarrow> Inl (''Cannot convert string to int - '' @ err)
                 | Inr n \<Rightarrow> Inr (tr\<lparr>Uid := n\<rparr>)))
         else Inr (tr\<lparr>Uid := Geteuid env\<rparr>))
      else Inr tr)"

definition resolve_Gid :: "env \<Rightarrow> TemplateResource \<Rightarrow> error + TemplateResource" where
  "resolve_Gid env tr =
     (if Gid tr = - 1 then
        (if Group tr \<noteq> [] then
           (case user_LookupGroup env (Group tr) of
              Inl err \<Rightarrow> Inl (''Cannot find group'' @ [CHR 0x27] @ ''s GID - '' @ err)
            | Inr g \<Rightarrow>
                (case Atoi g of
                   Inl err \<Rightarrow> Inl (''Cannot convert string to int - '' @ err)
                 | Inr n \<Rightarrow> Inr (tr\<lparr>Gid := n\<rparr>)))
         else Inr (tr\<lparr>Gid := Getegid env\<rparr>))
      else Inr tr)"

definition NewTemplateResource :: "env \<Rightarrow> fs \<Rightarrow> string \<Rightarrow> Config \<Rightarrow> error + TemplateResource" where
  "NewTemplateResource env fs path config =
     (if StoreClient config = None then Inl ''A valid StoreClient is required.''
      else
        (case DecodeFS env fs path TemplateResource_init of
           Inl err \<Rightarrow> Inl (''Cannot process template resource '' @ path @ '' - '' @ err)
         | Inr tc \<Rightarrow>
             (let tr = tc\<lparr>keepStageFile := KeepStageFile config,
                         noop := Noop config,
                         storeClient := StoreClient config,
                         Store := Map.empty,
                         syncOnly := SyncOnly config\<rparr>;
                  tr = (if Config.Prefix config \<noteq> [] then tr\<lparr>Prefix := Config.Prefix config\<rparr>
                        else tr);
                  tr = (if \<not> HasPrefix (Prefix tr) ''/'' then tr\<lparr>Prefix := ''/'' @ Prefix tr\<rparr>
                        else tr)
              in if Src tr = [] then Inl ErrEmptySrc
                 else
                   (case resolve_Uid env tr of
                      Inl err \<Rightarrow> Inl err
                    | Inr tr \<Rightarrow>
                        (case resolve_Gid env tr of
                           Inl err \<Rightarrow> Inl err
                         | Inr tr \<Rightarrow> Inr (tr\<lparr>Src := Join [TemplateDir config, Src tr]\<rparr>))))))"

text \<open>
  \<open>setVars\<close>: the methods with a pointer receiver return the resource as they leave it,
  beside their error.
\<close>

definition setVars :: "TemplateResource \<Rightarrow> (TemplateResource \<times> error option) outcome" where
  "setVars t =
     (case storeClient t of
        None \<Rightarrow> Panic
      | Some GetValues \<Rightarrow>
          (case GetValues (AppendPrefix (Prefix t) (Keys t)) of
             Inl err \<Rightarrow> Return (t, Some err)
           | Inr result \<Rightarrow>
               Return (t\<lparr>Store :=
                          fold (\<lambda>(k, v) store. Set_kv store (Join [''/'', TrimPrefix k (Prefix t)]) v)
                            result (Purge (Store t))\<rparr>,
                       None)))"

text \<open>\<open>setFileMode\<close>; \<open>0x1A4\<close> is octal \<open>0644\<close>.\<close>

definition setFileMode :: "fs \<Rightarrow> TemplateResource \<Rightarrow> TemplateResource \<times> error option" where
  "setFileMode fs t =
     (if Mode t = [] then
        (if \<not> IsFileExist fs (Dest t) then (t\<lparr>FileMode := 0x1A4\<rparr>, None)
         else
           (case Stat fs (Dest t) of
              Inl err \<Rightarrow> (t, Some err)
            | Inr fi \<Rightarrow> (t\<lparr>FileMode := mode fi\<rparr>, None)))
      else
        (case ParseUint (Mode t) of
           Inl err \<Rightarrow> (t, Some err)
         | Inr m \<Rightarrow> (t\<lparr>FileMode := ucast m\<rparr>, None)))"

text \<open>
  \<open>CreateStageFile\<close> returns the resource, the filesystem and its error. The results of
  \<open>Remove\<close>, \<open>Chmod\<close> and \<open>Chown\<close> are discarded, as in the source.
\<close>

definition CreateStageFile :: "env \<Rightarrow> TemplateResource \<Rightarrow> fs \<Rightarrow> TemplateResource \<times> fs \<times> error option" where
  "CreateStageFile env t fs =
     (if \<not> IsFileExist fs (Src t) then (t, fs, Some (''Missing template: '' @ Src t))
      else
        (case ParseFS env fs (Base (Src t)) (Src t) of
           Inl err \<Rightarrow> (t, fs, Some (''Unable to process template '' @ Src t @ '', '' @ err))
         | Inr tmpl \<Rightarrow>
             (case TempFile env fs (Dir (Dest t)) (''.'' @ Base (Dest t)) of
                (fs, Inl err) \<Rightarrow> (t, fs, Some err)
              | (fs, Inr temp) \<Rightarrow>
                  (case template_Execute env tmpl (Some (Store t)) None of
                     (out, Some err) \<Rightarrow> (t, fst (Remove env (Write fs temp out) temp), Some err)
                   | (out, None) \<Rightarrow>
                       (let fs = Write fs temp out;
                            fs = fst (Chmod env fs temp (FileMode t));
                            fs = fst (Chown env fs temp (Uid t) (Gid t))
                        in (t\<lparr>StageFile := Some temp\<rparr>, fs, None))))))"

definition runCommand :: "env \<Rightarrow> fs \<Rightarrow> string \<Rightarrow> error option" where
  "runCommand env fs cmd = sh env fs cmd"

definition check :: "env \<Rightarrow> fs \<Rightarrow> TemplateResource \<Rightarrow> error option outcome" where
  "check env fs t =
     (case StageFile t of
        None \<Rightarrow> Panic
      | Some staged \<Rightarrow>
          (case template_Parse env ''checkcmd'' (CheckCmd t) of
             Inl err \<Rightarrow> Return (Some err)
           | Inr tmpl \<Rightarrow>
               (case template_Execute env tmpl None (Some [''src'' \<mapsto> staged]) of
                  (cmdBuffer, Some err) \<Rightarrow> Return (Some err)
                | (cmdBuffer, None) \<Rightarrow> Return (runCommand env fs cmdBuffer))))"

definition reload :: "env \<Rightarrow> fs \<Rightarrow> TemplateResource \<Rightarrow> error option" where
  "reload env fs t = runCommand env fs (ReloadCmd t)"

text \<open>
  Besides the filesystem and its error, \<open>sync\<close> returns the calls it made that act on the
  world, in order and each with its result: the check and reload commands, and the
  filesystem operations other than the comparison.
\<close>

datatype event =
    Checked "error option"
  | Renamed string string "error option"
  | Read string "error option"
  | Written string string "32 word" "error option"
  | Chowned string int int "error option"
  | Reloaded "error option"
  | Removed string "error option"

text \<open>
  \<open>sync_body\<close> is \<open>sync\<close> from the comparison on, once \<open>staged\<close> is known and the removal
  of the staged file is deferred. The error of the comparison is logged and not used.
\<close>

definition sync_body :: "env \<Rightarrow> TemplateResource \<Rightarrow> string \<Rightarrow> fs
    \<Rightarrow> (fs \<times> event list \<times> error option) outcome" where
  "sync_body env t staged fs =
     (let (ok, err) = IsConfigChanged env fs staged (Dest t)
      in if noop t then Return (fs, [], None)
         else if ok then
           (case (if \<not> syncOnly t \<and> CheckCmd t \<noteq> []
                  then (case check env fs t of
                          Panic \<Rightarrow> Panic
                        | Return err \<Rightarrow> Return ([Checked err], err))
                  else Return ([], None)) of
              Panic \<Rightarrow> Panic
            | Return (evs, Some err) \<Rightarrow> Return (fs, evs, Some (''Config check failed: '' @ err))
            | Return (evs, None) \<Rightarrow>
                (let (fs, evs, err) =
                       (case Rename env fs staged (Dest t) of
                          (fs, None) \<Rightarrow> (fs, evs @ [Renamed staged (Dest t) None], None)
                        | (fs, Some err) \<Rightarrow>
                            (let evs = evs @ [Renamed staged (Dest t) (Some err)]
                             in if Contains err ''device or resource busy'' then
                                  (case ReadFile env fs staged of
                                     Inl rerr \<Rightarrow> (fs, evs @ [Read staged (Some rerr)], Some rerr)
                                   | Inr contents \<Rightarrow>
                                       (let (fs, err) = WriteFile env fs (Dest t) contents (FileMode t);
                                            (fs, cerr) = Chown env fs (Dest t) (Uid t) (Gid t)
                                        in (fs,
                                            evs @ [Read staged None,
                                                   Written (Dest t) contents (FileMode t) err,
                                                   Chowned (Dest t) (Uid t) (Gid t) cerr],
                                            err)))
                                else (fs, evs, Some err)))
                 in if err \<noteq> None then Return (fs, evs, err)
                    else if \<not> syncOnly t \<and> ReloadCmd t \<noteq> [] then
                      (let err = reload env fs t in Return (fs, evs @ [Reloaded err], err))
                    else Return (fs, evs, None)))
         else Return (fs, [], None))"

text \<open>What \<open>defer t.fs.Remove(staged)\<close>, registered unless \<open>keepStageFile\<close>, does on return.\<close>

definition deferred_Remove :: "env \<Rightarrow> TemplateResource \<Rightarrow> string \<Rightarrow> fs \<Rightarrow> fs \<times> event list" where
  "deferred_Remove env t staged fs =
     (if keepStageFile t then (fs, [])
      else (case Remove env fs staged of (fs, err) \<Rightarrow> (fs, [Removed staged err])))"

definition sync :: "env \<Rightarrow> TemplateResource \<Rightarrow> fs \<Rightarrow> (fs \<times> event list \<times> error option) outcome" where
  "sync env t fs =
     (case StageFile t of
        None \<Rightarrow> Panic
      | Some staged \<Rightarrow>
          (case sync_body env t staged fs of
             Panic \<Rightarrow> Panic
           | Return (fs, evs, err) \<Rightarrow>
               (case deferred_Remove env t staged fs of
                  (fs, removed) \<Rightarrow> Return (fs, evs @ removed, err))))"

text \<open>\<open>process\<close> passes on the calls that \<open>sync\<close> made; the steps before it make none.\<close>

definition process :: "env \<Rightarrow> TemplateResource \<Rightarrow> fs
    \<Rightarrow> (TemplateResource \<times> fs \<times> event list \<times> error option) outcome" where
  "process env t fs =
     (case setFileMode fs t of
        (t, Some err) \<Rightarrow> Return (t, fs, [], Some err)
      | (t, None) \<Rightarrow>
          (case setVars t of
             Panic \<Rightarrow> Panic
           | Return (t, Some err) \<Rightarrow> Return (t, fs, [], Some err)
           | Return (t, None) \<Rightarrow>
               (case CreateStageFile env t fs of
                  (t, fs, Some err) \<Rightarrow> Return (t, fs, [], Some err)
                | (t, fs, None) \<Rightarrow>
                    (case sync env t fs of
                       Panic \<Rightarrow> Panic
                     | Return (fs, evs, err) \<Rightarrow> Return (t, fs, evs, err)))))"

section \<open>An example environment\<close>

text \<open>
  A host on which nothing fails: the template engine copies the template text, the
  digest stand-in is the content itself, the comparison is by content, the shell command
  \<open>false\<close> exits with status 1 and every other command with 0, and no descriptor decodes.
\<close>

definition env0 :: env where
  "env0 =
     \<lparr>Geteuid = 1000, Getegid = 1000, umask = 0x12, TempDir = ''/tmp'',
      nextRandom = (\<lambda>i. replicate (Suc i) (CHR ''7'')),
      open_err = (\<lambda>name. None),
      create_err = (\<lambda>name. None),
      write_err = (\<lambda>name data. None),
      rename_err = (\<lambda>oldname newname. None),
      remove_err = (\<lambda>name. None),
      chmod_err = (\<lambda>name. None),
      chown_err = (\<lambda>name. None),
      md5_hex = (\<lambda>data. data),
      sh = (\<lambda>fs cmd. if cmd = ''false'' then Some ''exit status 1'' else None),
      template_Parse = (\<lambda>name text. Inr text),
      template_ParseFS = (\<lambda>fs name pattern.
         case fs pattern of None \<Rightarrow> Inl ''template: pattern matches no files''
                          | Some f \<Rightarrow> Inr (content f)),
      iofs_op = ''open'',
      template_Execute = (\<lambda>tmpl store data. (tmpl, None)),
      toml_DecodeFS = (\<lambda>fs path tr. Inl ''toml: not a descriptor''),
      user_Lookup = (\<lambda>name. Inl (''user: unknown user '' @ name)),
      user_LookupGroup = (\<lambda>name. Inl (''group: unknown group '' @ name)),
      IsConfigChanged = (\<lambda>fs src dest.
         case fs dest of None \<Rightarrow> (True, None)
         | Some d \<Rightarrow> (case fs src of None \<Rightarrow> (True, Some ''File not found'')
                                   | Some s \<Rightarrow> (content s \<noteq> content d, None)))\<rparr>"

text \<open>
  A resource for \<open>/etc/app.conf\<close>, staged as \<open>/etc/.app.conf7\<close>, and a filesystem with
  the template, a destination that reads \<open>old\<close> and a staged file that reads \<open>new\<close>.
  The configuration and template directories are given relative to the working
  directory, so that the descriptor and the template are named by valid paths.
\<close>

definition tr0 :: TemplateResource where
  "tr0 =
     \<lparr>CheckCmd = [], Dest = ''/etc/app.conf'', FileMode = 0x1A4, Gid = 0, Group = [],
      Keys = [''/db''], Mode = [], Owner = [], Prefix = ''/app/'', ReloadCmd = [],
      Src = ''templates/app.tmpl'', StageFile = Some ''/etc/.app.conf7'', Uid = 0,
      lastIndex = 0, keepStageFile = False, noop = False,
      Store = [''/stale'' \<mapsto> ''1''],
      storeClient = Some (\<lambda>keys. Inl ''backend: connection refused''), syncOnly = False\<rparr>"

definition fs0 :: fs where
  "fs0 =
     [''templates/app.tmpl'' \<mapsto> \<lparr>content = ''new'', mode = 0x1A4, uid = 0, gid = 0\<rparr>,
      ''/etc/app.conf'' \<mapsto> \<lparr>content = ''old'', mode = 0x1A0, uid = 33, gid = 33\<rparr>,
      ''/etc/.app.conf7'' \<mapsto> \<lparr>content = ''new'', mode = 0x1A4, uid = 0, gid = 0\<rparr>]"

text \<open>
  Hosts that differ from it in one respect: the destination is a mount point, so that
  rename fails as busy; rename is refused for another reason; the mount is full as
  well, so that nothing can be written; rendering fails half-way; it does, and files
  cannot be removed either; the process may not change mode or owner.
\<close>

definition env_busy :: env where
  "env_busy = env0\<lparr>rename_err :=
      (\<lambda>oldname newname. Some (''rename '' @ oldname @ '' '' @ newname @ '': device or resource busy''))\<rparr>"

definition env_denied :: env where
  "env_denied = env0\<lparr>rename_err :=
      (\<lambda>oldname newname. Some (''rename '' @ oldname @ '' '' @ newname @ '': permission denied''))\<rparr>"

definition env_full :: env where
  "env_full = env_busy\<lparr>write_err :=
      (\<lambda>name data. Some (0, ''write '' @ name @ '': no space left on device''))\<rparr>"

definition env_noexec :: env where
  "env_noexec = env0\<lparr>template_Execute :=
      (\<lambda>tmpl store data. (''ne'', Some ''template: app.tmpl:1:3: executing: key does not exist''))\<rparr>"

definition env_sticky :: env where
  "env_sticky = env_noexec\<lparr>remove_err :=
      (\<lambda>name. Some (''remove '' @ name @ '': operation not permitted''))\<rparr>"

definition env_eperm :: env where
  "env_eperm = env0\<lparr>chmod_err := (\<lambda>name. Some (''chmod '' @ name @ '': operation not permitted'')),
                    chown_err := (\<lambda>name. Some (''chown '' @ name @ '': operation not permitted''))\<rparr>"

definition config0 :: Config where
  "config0 =
     \<lparr>ConfDir = ''.'', ConfigDir = ''conf.d'', KeepStageFile = False,
      Noop = False, Prefix = [], StoreClient = None, SyncOnly = False,
      TemplateDir = ''templates''\<rparr>"

section \<open>Facts about the example and the filesystem\<close>

lemma tr0_fields:
  "StageFile tr0 = Some ''/etc/.app.conf7''" "Dest tr0 = ''/etc/app.conf''" "\<not> noop tr0"
  "CheckCmd tr0 = []" "ReloadCmd tr0 = []" "\<not> syncOnly tr0" "\<not> keepStageFile tr0"
  "FileMode tr0 = 0x1A4" "Uid tr0 = 0" "Gid tr0 = 0" "Mode tr0 = []"
  by (simp_all add: tr0_def)

lemma fs0_files:
  "fs0 ''/etc/app.conf'' = Some \<lparr>content = ''old'', mode = 0x1A0, uid = 33, gid = 33\<rparr>"
  "fs0 ''/etc/.app.conf7'' = Some \<lparr>content = ''new'', mode = 0x1A4, uid = 0, gid = 0\<rparr>"
  "fs0 ''templates/app.tmpl'' = Some \<lparr>content = ''new'', mode = 0x1A4, uid = 0, gid = 0\<rparr>"
  by (simp_all add: fs0_def)

lemma changed0:
  assumes "IsConfigChanged env = IsConfigChanged env0"
  shows "fst (IsConfigChanged env fs0 ''/etc/.app.conf7'' ''/etc/app.conf'')"
  by (simp add: assms env0_def fs0_files)

lemma busy_messages:
  "Contains ''rename /etc/.app.conf7 /etc/app.conf: device or resource busy'' ''device or resource busy''"
  "\<not> Contains ''rename /etc/.app.conf7 /etc/app.conf: permission denied'' ''device or resource busy''"
  by (simp_all add: Contains.simps HasPrefix_def)

lemma stage_names:
  "Dir ''/etc/app.conf'' = ''/etc''" "Base ''/etc/app.conf'' = ''app.conf''"
  "Base ''templates/app.tmpl'' = ''app.tmpl''"
  "Join [''/etc'', ''.app.conf7''] = ''/etc/.app.conf7''"
  "Join [''/etc'', ''.app.conf77''] = ''/etc/.app.conf77''"
  by (simp_all add: Dir_def Base_def Clean_def Join_def)

text \<open>A string of ASCII characters is valid UTF-8; a rooted name is not a valid path.\<close>

lemma ValidString_ascii: "\<forall>c \<in> set s. (of_char c :: nat) < 0x80 \<Longrightarrow> ValidString s"
  by (induction s) (auto simp: ValidString.simps first.simps)

lemma ValidPath_rooted: "HasPrefix name ''/'' \<Longrightarrow> \<not> ValidPath name"
  by (cases name) (auto simp: ValidPath_def HasPrefix_def ValidPath_loop.simps [of "x # xs" for x xs])

lemma path_examples:
  "ValidPath ''templates/app.tmpl''" "\<not> hasMeta ''templates/app.tmpl''"
  "ValidPath ''conf.d/app.toml''"
  "\<not> ValidPath ''/etc/confd/templates/app.tmpl''" "\<not> hasMeta ''/etc/confd/templates/app.tmpl''"
  by (simp_all add: ValidPath_def ValidString_ascii ValidPath_loop.simps hasMeta_def)

lemma normalize_example: "Join [''/'', TrimPrefix ''/app/db/host'' ''/app/''] = ''/db/host''"
  by (simp add: Join_def Clean_def TrimPrefix_def HasPrefix_def)

lemma fst_Remove:
  "fst (Remove env fs name) = (if remove_err env name = None then fs(name := None) else fs)"
  by (auto simp: Remove_def split: option.splits)

lemma Rename_error_fs: "snd (Rename env fs a b) = Some err \<Longrightarrow> fst (Rename env fs a b) = fs"
  by (auto simp: Rename_def split: option.splits)

lemma WriteFile_content:
  "snd (WriteFile env fs name data perm) = None
   \<Longrightarrow> map_option content (fst (WriteFile env fs name data perm) name) = Some data"
  by (auto simp: WriteFile_def Let_def split: option.splits)

lemma Chown_content:
  "map_option content (fst (Chown env fs name u g) p) = map_option content (fs p)"
  by (auto simp: Chown_def split: option.splits)

lemma Remove_Write_fresh:
  assumes "fs name = None" and "remove_err env name = None"
  shows "fst (Remove env (Write (fs(name \<mapsto> f)) name out) name) = fs"
  using assms by (auto simp: fst_Remove Write_def)

text \<open>
  \<open>TempFile\<close> either fails and leaves the filesystem as it was, or creates an empty file
  under a name that was free.
\<close>

lemma TempFile_loop_result:
  "TempFile_loop env fs dir pre suf i err = (fs', r) \<Longrightarrow>
     (case r of Inl e \<Rightarrow> fs' = fs
              | Inr name \<Rightarrow> fs name = None \<and> fs' = fs(name \<mapsto> new_file env 0x180))"
proof (induction env fs dir pre suf i err rule: TempFile_loop.induct)
  case (1 env fs dir pre suf i err)
  show ?case
  proof (cases "i < 10000")
    case False
    with "1.prems" show ?thesis by (auto simp: TempFile_loop.simps)
  next
    case True
    let ?name = "Join [dir, pre @ nextRandom env i @ suf]"
    show ?thesis
    proof (cases "fs ?name = None")
      case False
      with True "1.prems" have
        "TempFile_loop env fs dir pre suf (i + 1) (''open '' @ ?name @ '': file exists'') = (fs', r)"
        by (simp add: TempFile_loop.simps [of env fs dir pre suf i])
      with "1.IH" [OF True refl] False show ?thesis by simp
    next
      case free: True
      with True "1.prems" show ?thesis
        by (auto simp: TempFile_loop.simps [of env fs dir pre suf i] Let_def split: option.splits)
    qed
  qed
qed

lemma TempFile_result:
  "TempFile env fs dir pattern = (fs', r) \<Longrightarrow>
     (case r of Inl e \<Rightarrow> fs' = fs
              | Inr name \<Rightarrow> fs name = None \<and> fs' = fs(name \<mapsto> new_file env 0x180))"
  by (auto simp: TempFile_def Let_def split: prod.splits dest: TempFile_loop_result)

lemma TempFile_example:
  assumes "nextRandom env = nextRandom env0" and "create_err env = create_err env0"
      and "umask env = umask env0" and "Geteuid env = Geteuid env0" and "Getegid env = Getegid env0"
  shows "TempFile env fs0 ''/etc'' ''.app.conf''
     = (fs0(''/etc/.app.conf77'' \<mapsto> \<lparr>content = [], mode = 0x180, uid = 1000, gid = 1000\<rparr>),
        Inr ''/etc/.app.conf77'')"
  by (simp add: TempFile_def prefixAndSuffix_def stage_names Let_def
        TempFile_loop.simps [of _ _ _ _ _ 0] TempFile_loop.simps [of _ _ _ _ _ "Suc 0"]
        assms env0_def fs0_def new_file_def)

section \<open>Refreshing the store\<close>

text \<open>
  C3. When the backend's \<open>GetValues\<close> fails, \<open>setVars\<close> returns that error and leaves the
  resource, and with it the store, exactly as it was: no key is purged, added or changed.
\<close>

theorem setVars_backend_error:
  assumes "storeClient t = Some GetValues"
      and "GetValues (AppendPrefix (Prefix t) (Keys t)) = Inl err"
  shows "setVars t = Return (t, Some err)"
  using assms by (simp add: setVars_def)

theorem setVars_backend_error_witness:
  "storeClient tr0 = Some (\<lambda>keys. Inl ''backend: connection refused'')
   \<and> (\<lambda>keys. Inl ''backend: connection refused'') (AppendPrefix (Prefix tr0) (Keys tr0))
       = (Inl ''backend: connection refused'' :: error + (string \<times> string) list)
   \<and> setVars tr0 = Return (tr0, Some ''backend: connection refused'')
   \<and> Store tr0 ''/stale'' = Some ''1''"
  using setVars_backend_error [of tr0 "\<lambda>keys. Inl ''backend: connection refused''"
      "''backend: connection refused''"]
  by (simp add: tr0_def)

lemma dom_fold_upd:
  "dom (fold (\<lambda>(k, v) store. store(f k \<mapsto> v)) result store0) = dom store0 \<union> f ` fst ` set result"
  by (induction result arbitrary: store0) auto

lemma fold_upd_value:
  fixes f :: "string \<Rightarrow> string" and v :: string
  assumes "(k, v) \<in> set result"
      and "\<forall>(k', v') \<in> set result. f k' = f k \<longrightarrow> v' = v"
  shows "fold (\<lambda>(k, v) store. store(f k \<mapsto> v)) result store0 (f k) = Some v"
proof -
  define F :: "string \<times> string \<Rightarrow> (string \<rightharpoonup> string) \<Rightarrow> (string \<rightharpoonup> string)"
    where "F = (\<lambda>(k, v) store. store(f k \<mapsto> v))"
  have step: "F (k', v') store = store(f k' \<mapsto> v')" for k' v' store
    by (simp add: F_def)
  have "fold F result store0 (f k) = Some v"
    using assms
  proof (induction result arbitrary: store0 rule: rev_induct)
    case Nil
    then show ?case by simp
  next
    case (snoc a result)
    obtain k' v' where a: "a = (k', v')" by (cases a)
    have unfold: "fold F (result @ [a]) store0 = (fold F result store0)(f k' \<mapsto> v')"
      by (simp add: a step)
    show ?case
    proof (cases "f k' = f k")
      case True
      with snoc.prems a have "v' = v" by auto
      with True show ?thesis unfolding unfold by simp
    next
      case False
      with snoc.prems a have "(k, v) \<in> set result" by auto
      moreover from snoc.prems have "\<forall>(k', v') \<in> set result. f k' = f k \<longrightarrow> v' = v" by auto
      ultimately have "fold F result store0 (f k) = Some v"
        by (rule snoc.IH)
      with False show ?thesis unfolding unfold by simp
    qed
  qed
  then show ?thesis by (simp add: F_def)
qed

text \<open>
  C7. After a successful refresh the keys of the store are exactly the backend's keys,
  each with the prefix trimmed and the rest joined to \<open>/\<close>; nothing of the earlier store
  remains. A key has the backend's value, provided no other returned key with another
  value is normalised to it (the order in which Go visits the map would decide). For
  the prefix \<open>/app/\<close> and the single backend key \<open>/app/db/host\<close> with value \<open>x\<close>, the store
  maps \<open>/db/host\<close> to \<open>x\<close> and has no entry \<open>/app/db/host\<close>.
\<close>

theorem setVars_success:
  assumes "storeClient t = Some GetValues"
      and "GetValues (AppendPrefix (Prefix t) (Keys t)) = Inr result"
  shows "\<exists>t'. setVars t = Return (t', None)
           \<and> dom (Store t') = (\<lambda>k. Join [''/'', TrimPrefix k (Prefix t)]) ` fst ` set result
           \<and> (\<forall>(k, v) \<in> set result.
                 (\<forall>(k', v') \<in> set result.
                     Join [''/'', TrimPrefix k' (Prefix t)] = Join [''/'', TrimPrefix k (Prefix t)]
                     \<longrightarrow> v' = v)
                 \<longrightarrow> Store t' (Join [''/'', TrimPrefix k (Prefix t)]) = Some v)
           \<and> (Prefix t = ''/app/'' \<and> result = [(''/app/db/host'', x)]
                 \<longrightarrow> Store t' ''/db/host'' = Some x \<and> Store t' ''/app/db/host'' = None)"
proof -
  let ?f = "\<lambda>k. Join [''/'', TrimPrefix k (Prefix t)]"
  let ?S = "fold (\<lambda>(k, v) store. store(?f k \<mapsto> v)) result Map.empty"
  have ret: "setVars t = Return (t\<lparr>Store := ?S\<rparr>, None)"
    using assms by (simp add: setVars_def Set_kv_def Purge_def)
  have d: "dom ?S = ?f ` fst ` set result"
    by (simp add: dom_fold_upd)
  have v: "\<forall>(k, v) \<in> set result.
             (\<forall>(k', v') \<in> set result. ?f k' = ?f k \<longrightarrow> v' = v) \<longrightarrow> ?S (?f k) = Some v"
    using fold_upd_value [where f = ?f and result = result] by blast
  have e: "Prefix t = ''/app/'' \<and> result = [(''/app/db/host'', x)]
             \<longrightarrow> ?S ''/db/host'' = Some x \<and> ?S ''/app/db/host'' = None"
    by (simp add: normalize_example)
  from ret d v e show ?thesis by simp
qed

theorem setVars_success_witness:
  "storeClient (tr0\<lparr>storeClient := Some (\<lambda>keys. Inr [(''/app/db/host'', ''x'')])\<rparr>)
     = Some (\<lambda>keys. Inr [(''/app/db/host'', ''x'')])
   \<and> Store (tr0\<lparr>storeClient := Some (\<lambda>keys. Inr [(''/app/db/host'', ''x'')])\<rparr>) ''/stale'' = Some ''1''
   \<and> (\<exists>t'. setVars (tr0\<lparr>storeClient := Some (\<lambda>keys. Inr [(''/app/db/host'', ''x'')])\<rparr>)
               = Return (t', None)
          \<and> dom (Store t') = {''/db/host''}
          \<and> Store t' ''/db/host'' = Some ''x''
          \<and> Store t' ''/app/db/host'' = None
          \<and> Store t' ''/stale'' = None)"
proof -
  let ?t = "tr0\<lparr>storeClient := Some (\<lambda>keys. Inr [(''/app/db/host'', ''x'')])\<rparr>"
  have h: "storeClient ?t = Some (\<lambda>keys. Inr [(''/app/db/host'', ''x'')])"
    "Prefix ?t = ''/app/''" "Store ?t ''/stale'' = Some ''1''"
    by (simp_all add: tr0_def)
  from setVars_success [of ?t "\<lambda>keys. Inr [(''/app/db/host'', ''x'')]" "[(''/app/db/host'', ''x'')]" "''x''",
      OF h(1) refl]
  obtain t' where t': "setVars ?t = Return (t', None)"
      "dom (Store t') = {''/db/host''}"
      "Store t' ''/db/host'' = Some ''x''" "Store t' ''/app/db/host'' = None"
    by (auto simp: h(2) normalize_example)
  from t'(2) have "''/stale'' \<notin> dom (Store t')" by simp
  then have "Store t' ''/stale'' = None" by (simp add: domIff)
  with t' h show ?thesis by blast
qed

section \<open>Constructing a resource\<close>

text \<open>
  C10. With a nil \<open>StoreClient\<close> in the configuration, \<open>NewTemplateResource\<close> returns the
  error "A valid StoreClient is required." and no resource, whatever the filesystem, the
  descriptor's path and the decoder are: the descriptor is not decoded.
\<close>

theorem NewTemplateResource_nil_StoreClient:
  assumes "StoreClient config = None"
  shows "NewTemplateResource env fs path config = Inl ''A valid StoreClient is required.''"
  using assms by (simp add: NewTemplateResource_def)

theorem NewTemplateResource_nil_StoreClient_witness:
  "StoreClient config0 = None
   \<and> NewTemplateResource env0 fs0 ''conf.d/app.toml'' config0
       = Inl ''A valid StoreClient is required.''
   \<and> NewTemplateResource (env0\<lparr>toml_DecodeFS := (\<lambda>fs path tr. Inr (tr\<lparr>Src := ''app.tmpl''\<rparr>))\<rparr>)
        fs0 ''conf.d/app.toml'' config0
       = Inl ''A valid StoreClient is required.''"
  using NewTemplateResource_nil_StoreClient [of config0 env0 fs0 "''conf.d/app.toml''"]
        NewTemplateResource_nil_StoreClient [of config0
          "env0\<lparr>toml_DecodeFS := (\<lambda>fs path tr. Inr (tr\<lparr>Src := ''app.tmpl''\<rparr>))\<rparr>" fs0
          "''conf.d/app.toml''"]
  by (simp add: config0_def)

section \<open>Resolving the file mode\<close>

lemma ParseUint_examples:
  "ParseUint ''0644'' = Inr 0x1A4"
  "ParseUint ''0640'' = Inr 0x1A0"
  "ParseUint ''rw-r--r--'' = Inl (syntaxError ''ParseUint'' ''rw-r--r--'')"
  by (simp_all add: ParseUint_def lower_def byte_def)

text \<open>A leading \<open>0\<close> and octal digits are read in base 8.\<close>

lemma octal_digit:
  assumes "c \<in> set ''01234567''"
  shows "c \<noteq> CHR ''_''" "0x30 \<le> byte c" "byte c \<le> 0x39"
    "unat (ucast (byte c - 0x30) :: 64 word) = of_char c - 48"
    "(of_char c :: nat) - 48 < 8"
    "lower c \<noteq> 0x62" "lower c \<noteq> 0x6F" "lower c \<noteq> 0x78"
  using assms by (auto simp: byte_def lower_def)

lemma octal_digit_base:
  assumes "c \<in> set ''01234567''"
  shows "\<not> (ucast (byte c - 0x30) :: 64 word) \<ge> 8"
  using octal_digit(4,5) [OF assms] by (simp add: word_le_nat_alt)

lemma octal_from_mono: "n \<le> octal_from n ds"
proof (induction ds arbitrary: n)
  case Nil
  then show ?case by simp
next
  case (Cons c cs)
  have "n \<le> n * 8 + (of_char c - 48)" by simp
  also have "\<dots> \<le> octal_from (n * 8 + (of_char c - 48)) cs" by (rule Cons.IH)
  finally show ?case by simp
qed

lemma ParseUint_loop_octal:
  assumes "set ds \<subseteq> set ''01234567''" and "octal_from (unat n) ds < 2 ^ 32"
  shows "ParseUint_loop s0 8 0x2000000000000000 0xFFFFFFFF False n ds
           = Inr (of_nat (octal_from (unat n) ds), False)"
  using assms
proof (induction ds arbitrary: n)
  case Nil
  then show ?case by simp
next
  case (Cons c cs)
  from Cons.prems(1) have c: "c \<in> set ''01234567''" and cs: "set cs \<subseteq> set ''01234567''"
    by simp_all
  note dg = octal_digit [OF c]
  let ?d = "ucast (byte c - 0x30) :: 64 word"
  let ?n1 = "n * 8 + ?d"
  have b1: "unat n * 8 + (of_char c - 48) < 2 ^ 32"
    using octal_from_mono [of "unat n * 8 + (of_char c - 48)" cs] Cons.prems(2) by simp
  then have n_small: "unat n < 2 ^ 32" by simp
  have m: "unat (n * 8) = unat n * 8"
    using n_small by (simp add: unat_word_ariths)
  have u1: "unat ?n1 = unat n * 8 + (of_char c - 48)"
    using b1 by (simp add: unat_word_ariths m dg(4))
  have no_cut: "\<not> n \<ge> 0x2000000000000000"
    using n_small by (simp add: word_le_nat_alt)
  have no_wrap: "\<not> ?n1 < n * 8"
    using u1 m by (simp add: word_less_nat_alt)
  have no_max: "\<not> ?n1 > 0xFFFFFFFF"
    using u1 b1 by (simp add: word_less_nat_alt)
  have "ParseUint_loop s0 8 0x2000000000000000 0xFFFFFFFF False n (c # cs)
          = ParseUint_loop s0 8 0x2000000000000000 0xFFFFFFFF False ?n1 cs"
    using dg(1-3) octal_digit_base [OF c] no_cut no_wrap no_max by (simp add: Let_def)
  also have "\<dots> = Inr (of_nat (octal_from (unat ?n1) cs), False)"
    using cs Cons.prems(2) by (intro Cons.IH) (simp_all add: u1)
  finally show ?case by (simp add: u1)
qed

lemma ParseUint_octal:
  assumes "set ds \<subseteq> set ''01234567''" and "octal ds < 2 ^ 32"
  shows "ParseUint (CHR ''0'' # ds) = Inr (of_nat (octal ds))"
proof -
  have loop: "ParseUint_loop (CHR ''0'' # ds) 8 0x2000000000000000 0xFFFFFFFF False 0 ds
           = Inr (of_nat (octal ds), False)"
    using ParseUint_loop_octal [of ds 0 "CHR ''0'' # ds"] assms by (simp add: octal_def)
  show ?thesis
  proof (cases ds)
    case Nil
    then show ?thesis by (simp add: ParseUint_def octal_def)
  next
    case (Cons c cs)
    with assms(1) have "c \<in> set ''01234567''" by simp
    note lw = octal_digit(6-8) [OF this]
    from loop show ?thesis
      unfolding Cons by (simp add: ParseUint_def lw del: ParseUint_loop.simps)
  qed
qed

lemma ucast_of_nat_64_32:
  "n < 2 ^ 32 \<Longrightarrow> (ucast (of_nat n :: 64 word) :: 32 word) = of_nat n"
  by (simp add: unsigned_of_nat take_bit_nat_eq_self)

text \<open>
  C6. With no mode configured, \<open>setFileMode\<close> resolves the mode to \<open>0644\<close> when the
  destination does not exist and to the destination's current mode when it does. With
  a mode string configured, the resolved mode is the number \<open>strconv.ParseUint\<close> reads
  from it with base 0; for a \<open>0\<close> followed by octal digits that is the number the
  digits denote in base 8. When parsing fails the resource is left as it was and the
  error ends the cycle: \<open>process\<close> returns it before anything is fetched or staged.
\<close>

theorem setFileMode_resolved:
  "(Mode t = [] \<and> fs (Dest t) = None \<longrightarrow> setFileMode fs t = (t\<lparr>FileMode := 0x1A4\<rparr>, None))
   \<and> (\<forall>d. Mode t = [] \<and> fs (Dest t) = Some d \<longrightarrow> setFileMode fs t = (t\<lparr>FileMode := mode d\<rparr>, None))
   \<and> (\<forall>m. Mode t \<noteq> [] \<and> ParseUint (Mode t) = Inr m
          \<longrightarrow> setFileMode fs t = (t\<lparr>FileMode := ucast m\<rparr>, None))
   \<and> (\<forall>ds. Mode t = CHR ''0'' # ds \<and> set ds \<subseteq> set ''01234567'' \<and> octal ds < 2 ^ 32
          \<longrightarrow> setFileMode fs t = (t\<lparr>FileMode := of_nat (octal ds)\<rparr>, None))
   \<and> (\<forall>err. Mode t \<noteq> [] \<and> ParseUint (Mode t) = Inl err
          \<longrightarrow> setFileMode fs t = (t, Some err) \<and> process env t fs = Return (t, fs, [], Some err))"
  by (auto simp: setFileMode_def process_def IsFileExist_def Stat_def ParseUint_octal
        ucast_of_nat_64_32)

theorem setFileMode_resolved_witness:
  "Mode tr0 = [] \<and> (fs0(''/etc/app.conf'' := None)) (Dest tr0) = None
   \<and> setFileMode (fs0(''/etc/app.conf'' := None)) tr0 = (tr0\<lparr>FileMode := 0x1A4\<rparr>, None)
   \<and> fs0 (Dest tr0) = Some \<lparr>content = ''old'', mode = 0x1A0, uid = 33, gid = 33\<rparr>
   \<and> setFileMode fs0 tr0 = (tr0\<lparr>FileMode := 0x1A0\<rparr>, None)
   \<and> Mode (tr0\<lparr>Mode := ''0640''\<rparr>) \<noteq> [] \<and> ParseUint (Mode (tr0\<lparr>Mode := ''0640''\<rparr>)) = Inr 0x1A0
   \<and> set ''640'' \<subseteq> set ''01234567'' \<and> octal ''640'' = 0x1A0
   \<and> setFileMode fs0 (tr0\<lparr>Mode := ''0640''\<rparr>) = (tr0\<lparr>Mode := ''0640'', FileMode := 0x1A0\<rparr>, None)
   \<and> ParseUint (Mode (tr0\<lparr>Mode := ''rw-r--r--''\<rparr>)) = Inl (syntaxError ''ParseUint'' ''rw-r--r--'')
   \<and> setFileMode fs0 (tr0\<lparr>Mode := ''rw-r--r--''\<rparr>)
       = (tr0\<lparr>Mode := ''rw-r--r--''\<rparr>, Some (syntaxError ''ParseUint'' ''rw-r--r--''))
   \<and> process env0 (tr0\<lparr>Mode := ''rw-r--r--''\<rparr>) fs0
       = Return (tr0\<lparr>Mode := ''rw-r--r--''\<rparr>, fs0, [], Some (syntaxError ''ParseUint'' ''rw-r--r--''))"
  using setFileMode_resolved [of tr0 "fs0(''/etc/app.conf'' := None)" env0]
        setFileMode_resolved [of tr0 fs0 env0]
        setFileMode_resolved [of "tr0\<lparr>Mode := ''0640''\<rparr>" fs0 env0]
        setFileMode_resolved [of "tr0\<lparr>Mode := ''rw-r--r--''\<rparr>" fs0 env0]
  by (simp add: tr0_def fs0_def ParseUint_examples octal_def)

section \<open>Comparing the candidate with the destination\<close>

text \<open>
  C2. For a candidate and a destination that both exist and can be opened, the decision
  is made from the digests of the two files' bytes and from nothing else: it is
  \<open>changed\<close> exactly when the digests differ, so two files with equal bytes are reported
  unchanged whatever their owner, group and mode are.
\<close>

theorem IsConfigChanged_content_only:
  assumes "fs src = Some s" and "fs dest = Some d"
      and "open_err env src = None" and "open_err env dest = None"
  shows "IsConfigChanged_spec env fs src dest
           = (md5_hex env (content d) \<noteq> md5_hex env (content s), None)
         \<and> (content s = content d \<longrightarrow> IsConfigChanged_spec env fs src dest = (False, None))"
  using assms by (simp add: IsConfigChanged_spec_def FileStat_def IsFileExist_def Open_def)

theorem IsConfigChanged_content_only_witness:
  "fs0 ''templates/app.tmpl'' = Some \<lparr>content = ''new'', mode = 0x1A4, uid = 0, gid = 0\<rparr>
   \<and> (fs0(''/etc/app.conf'' \<mapsto> \<lparr>content = ''new'', mode = 0x1A0, uid = 33, gid = 33\<rparr>)) ''/etc/app.conf''
       = Some \<lparr>content = ''new'', mode = 0x1A0, uid = 33, gid = 33\<rparr>
   \<and> open_err env0 ''templates/app.tmpl'' = None \<and> open_err env0 ''/etc/app.conf'' = None
   \<and> IsConfigChanged_spec env0 (fs0(''/etc/app.conf'' \<mapsto> \<lparr>content = ''new'', mode = 0x1A0, uid = 33, gid = 33\<rparr>))
        ''templates/app.tmpl'' ''/etc/app.conf'' = (False, None)"
  using IsConfigChanged_content_only [of "fs0(''/etc/app.conf'' \<mapsto> \<lparr>content = ''new'', mode = 0x1A0, uid = 33, gid = 33\<rparr>)"
      "''templates/app.tmpl''" "\<lparr>content = ''new'', mode = 0x1A4, uid = 0, gid = 0\<rparr>"
      "''/etc/app.conf''" "\<lparr>content = ''new'', mode = 0x1A0, uid = 33, gid = 33\<rparr>" env0]
  by (simp add: fs0_def env0_def)

section \<open>Staging\<close>

text \<open>A successful step stages a file under a name that was free and changes nothing else.\<close>

lemma CreateStageFile_staged:
  assumes "CreateStageFile env t fs = (t', fs', None)"
  shows "\<exists>temp. StageFile t' = Some temp \<and> fs temp = None \<and> fs' temp \<noteq> None
           \<and> Dest t' = Dest t \<and> (\<forall>p. p \<noteq> temp \<longrightarrow> fs' p = fs p)"
proof -
  from assms have ex: "IsFileExist fs (Src t)"
    by (auto simp: CreateStageFile_def split: if_splits)
  from assms ex obtain tmpl where pf: "ParseFS env fs (Base (Src t)) (Src t) = Inr tmpl"
    by (auto simp: CreateStageFile_def split: sum.splits)
  obtain fs1 r where tf: "TempFile env fs (Dir (Dest t)) (''.'' @ Base (Dest t)) = (fs1, r)"
    by (cases "TempFile env fs (Dir (Dest t)) (''.'' @ Base (Dest t))")
  from assms ex pf tf obtain temp where r: "r = Inr temp"
    by (auto simp: CreateStageFile_def split: sum.splits)
  from TempFile_result [OF tf] r have fresh: "fs temp = None"
    and fs1: "fs1 = fs(temp \<mapsto> new_file env 0x180)" by simp_all
  obtain out xerr where xe: "template_Execute env tmpl (Some (Store t)) None = (out, xerr)"
    by (cases "template_Execute env tmpl (Some (Store t)) None")
  from assms ex pf tf r xe have none: "xerr = None"
    by (auto simp: CreateStageFile_def split: option.splits)
  from assms ex pf tf r xe none
  have t': "t' = t\<lparr>StageFile := Some temp\<rparr>"
    and fs': "fs' = fst (Chown env (fst (Chmod env (Write fs1 temp out) temp (FileMode t)))
                        temp (Uid t) (Gid t))"
    by (simp_all add: CreateStageFile_def Let_def)
  have "fs' p = fs p" if "p \<noteq> temp" for p
    using that unfolding fs' fs1
    by (auto simp: Chown_def Chmod_def Write_def split: option.splits)
  moreover have "fs' temp \<noteq> None"
    unfolding fs' fs1
    by (auto simp: Chown_def Chmod_def Write_def split: option.splits)
  ultimately show ?thesis using t' fresh by simp
qed

text \<open>
  A step that fails leaves the resource as it was, and the filesystem too, but for the
  temporary file when the template does not execute and the file cannot be removed.
\<close>

lemma CreateStageFile_failed:
  assumes "CreateStageFile env t fs = (t', fs', Some err)"
  shows "t' = t \<and> (\<forall>p. fs' p \<noteq> fs p \<longrightarrow>
                      fs p = None \<and> remove_err env p \<noteq> None
                      \<and> snd (TempFile env fs (Dir (Dest t)) (''.'' @ Base (Dest t))) = Inr p)"
proof (cases "IsFileExist fs (Src t)")
  case False
  with assms show ?thesis by (simp add: CreateStageFile_def)
next
  case ex: True
  show ?thesis
  proof (cases "ParseFS env fs (Base (Src t)) (Src t)")
    case (Inl e)
    with ex assms show ?thesis by (simp add: CreateStageFile_def)
  next
    case (Inr tmpl)
    obtain fs1 r where tf: "TempFile env fs (Dir (Dest t)) (''.'' @ Base (Dest t)) = (fs1, r)"
      by (cases "TempFile env fs (Dir (Dest t)) (''.'' @ Base (Dest t))")
    show ?thesis
    proof (cases r)
      case e: (Inl e)
      with TempFile_result [OF tf] have "fs1 = fs" by simp
      with ex Inr tf e assms show ?thesis by (simp add: CreateStageFile_def)
    next
      case tmp: (Inr temp)
      with TempFile_result [OF tf] have fresh: "fs temp = None"
        and fs1: "fs1 = fs(temp \<mapsto> new_file env 0x180)" by simp_all
      obtain out xerr where ex1: "template_Execute env tmpl (Some (Store t)) None = (out, xerr)"
        by (cases "template_Execute env tmpl (Some (Store t)) None")
      from assms ex Inr tf tmp ex1 obtain e where xerr: "xerr = Some e"
        by (cases xerr) (simp_all add: CreateStageFile_def Let_def)
      from assms ex Inr tf tmp ex1 xerr
      have t': "t' = t" and fs': "fs' = fst (Remove env (Write fs1 temp out) temp)"
        by (simp_all add: CreateStageFile_def)
      from fs' fs1 fresh have "\<forall>p. fs' p \<noteq> fs p \<longrightarrow> p = temp \<and> remove_err env p \<noteq> None"
        by (auto simp: fst_Remove Write_def split: if_splits)
      with t' fresh tf tmp show ?thesis by auto
    qed
  qed
qed

text \<open>
  C8. \<open>CreateStageFile\<close> returns no error exactly when the template exists and parses,
  the temporary file is created and the template executes; the outcome of \<open>Chmod\<close> and
  \<open>Chown\<close> on the temporary file plays no part in it. Whenever it does return an error,
  the resource is as it was before the step, and so is the filesystem, with one
  exception: a path that differs is the temporary file, which did not exist before and
  whose removal after a failed execution was refused (the result of that \<open>Remove\<close> is
  discarded too). Where the removal is not refused, no temporary file is left behind.
  When the step returns no error, the stage file is a file that did not exist before.
\<close>

theorem CreateStageFile_errors:
  "(snd (snd (CreateStageFile env t fs)) = None) =
     (IsFileExist fs (Src t) \<and>
      (\<exists>tmpl temp. ParseFS env fs (Base (Src t)) (Src t) = Inr tmpl
         \<and> snd (TempFile env fs (Dir (Dest t)) (''.'' @ Base (Dest t))) = Inr temp
         \<and> snd (template_Execute env tmpl (Some (Store t)) None) = None))
   \<and> (snd (snd (CreateStageFile env t fs)) \<noteq> None \<longrightarrow>
        fst (CreateStageFile env t fs) = t
        \<and> (\<forall>p. fst (snd (CreateStageFile env t fs)) p \<noteq> fs p \<longrightarrow>
              fs p = None \<and> remove_err env p \<noteq> None
              \<and> snd (TempFile env fs (Dir (Dest t)) (''.'' @ Base (Dest t))) = Inr p)
        \<and> ((\<forall>p. remove_err env p = None) \<longrightarrow> fst (snd (CreateStageFile env t fs)) = fs))
   \<and> (snd (snd (CreateStageFile env t fs)) = None \<longrightarrow>
        (\<exists>temp. StageFile (fst (CreateStageFile env t fs)) = Some temp \<and> fs temp = None
           \<and> fst (snd (CreateStageFile env t fs)) temp \<noteq> None))"
proof -
  obtain t' fs' e where r: "CreateStageFile env t fs = (t', fs', e)"
    by (cases "CreateStageFile env t fs") auto
  have staged: "snd (snd (CreateStageFile env t fs)) = None \<longrightarrow>
        (\<exists>temp. StageFile (fst (CreateStageFile env t fs)) = Some temp \<and> fs temp = None
           \<and> fst (snd (CreateStageFile env t fs)) temp \<noteq> None)"
  proof
    assume n: "snd (snd (CreateStageFile env t fs)) = None"
    with r have "CreateStageFile env t fs = (t', fs', None)" by simp
    from CreateStageFile_staged [OF this] r
    show "\<exists>temp. StageFile (fst (CreateStageFile env t fs)) = Some temp \<and> fs temp = None
           \<and> fst (snd (CreateStageFile env t fs)) temp \<noteq> None"
      by auto
  qed
  have failed: "snd (snd (CreateStageFile env t fs)) \<noteq> None \<longrightarrow>
        fst (CreateStageFile env t fs) = t
        \<and> (\<forall>p. fst (snd (CreateStageFile env t fs)) p \<noteq> fs p \<longrightarrow>
              fs p = None \<and> remove_err env p \<noteq> None
              \<and> snd (TempFile env fs (Dir (Dest t)) (''.'' @ Base (Dest t))) = Inr p)
        \<and> ((\<forall>p. remove_err env p = None) \<longrightarrow> fst (snd (CreateStageFile env t fs)) = fs)"
  proof
    assume "snd (snd (CreateStageFile env t fs)) \<noteq> None"
    with r obtain err where "CreateStageFile env t fs = (t', fs', Some err)" by auto
    from CreateStageFile_failed [OF this] r
    have a: "t' = t" and b: "\<forall>p. fs' p \<noteq> fs p \<longrightarrow>
              fs p = None \<and> remove_err env p \<noteq> None
              \<and> snd (TempFile env fs (Dir (Dest t)) (''.'' @ Base (Dest t))) = Inr p"
      by simp_all
    from b have "(\<forall>p. remove_err env p = None) \<longrightarrow> fs' = fs" by (intro impI ext) auto
    with a b r
    show "fst (CreateStageFile env t fs) = t
        \<and> (\<forall>p. fst (snd (CreateStageFile env t fs)) p \<noteq> fs p \<longrightarrow>
              fs p = None \<and> remove_err env p \<noteq> None
              \<and> snd (TempFile env fs (Dir (Dest t)) (''.'' @ Base (Dest t))) = Inr p)
        \<and> ((\<forall>p. remove_err env p = None) \<longrightarrow> fst (snd (CreateStageFile env t fs)) = fs)"
      by simp
  qed
  have "(snd (snd (CreateStageFile env t fs)) = None) =
     (IsFileExist fs (Src t) \<and>
      (\<exists>tmpl temp. ParseFS env fs (Base (Src t)) (Src t) = Inr tmpl
         \<and> snd (TempFile env fs (Dir (Dest t)) (''.'' @ Base (Dest t))) = Inr temp
         \<and> snd (template_Execute env tmpl (Some (Store t)) None) = None))"
  proof (cases "IsFileExist fs (Src t)")
    case False
    then show ?thesis by (simp add: CreateStageFile_def)
  next
    case ex: True
    show ?thesis
    proof (cases "ParseFS env fs (Base (Src t)) (Src t)")
      case (Inl e)
      with ex show ?thesis by (simp add: CreateStageFile_def)
    next
      case (Inr tmpl)
      obtain fs1 r where tf: "TempFile env fs (Dir (Dest t)) (''.'' @ Base (Dest t)) = (fs1, r)"
        by (cases "TempFile env fs (Dir (Dest t)) (''.'' @ Base (Dest t))")
      show ?thesis
      proof (cases r)
        case e: (Inl e)
        with ex Inr tf show ?thesis by (simp add: CreateStageFile_def)
      next
        case tmp: (Inr temp)
        obtain out xerr where ex1: "template_Execute env tmpl (Some (Store t)) None = (out, xerr)"
          by (cases "template_Execute env tmpl (Some (Store t)) None")
        with ex Inr tf tmp show ?thesis
          by (cases xerr) (simp_all add: CreateStageFile_def Let_def)
      qed
    qed
  qed
  with staged failed show ?thesis by blast
qed

text \<open>
  Three runs: the template does not execute and the temporary file is removed; it does
  not execute and the removal is refused, so that the file stays with what was written;
  nothing fails.
\<close>

theorem CreateStageFile_errors_witness:
  "snd (snd (CreateStageFile env_noexec tr0 fs0))
     = Some ''template: app.tmpl:1:3: executing: key does not exist''
   \<and> fst (CreateStageFile env_noexec tr0 fs0) = tr0
   \<and> fst (snd (CreateStageFile env_noexec tr0 fs0)) = fs0
   \<and> CreateStageFile env_sticky tr0 fs0
       = (tr0,
          fs0(''/etc/.app.conf77'' \<mapsto> \<lparr>content = ''ne'', mode = 0x180, uid = 1000, gid = 1000\<rparr>),
          Some ''template: app.tmpl:1:3: executing: key does not exist'')
   \<and> remove_err env_sticky ''/etc/.app.conf77''
       = Some ''remove /etc/.app.conf77: operation not permitted''
   \<and> CreateStageFile env0 tr0 fs0
       = (tr0\<lparr>StageFile := Some ''/etc/.app.conf77''\<rparr>,
          fs0(''/etc/.app.conf77'' \<mapsto> \<lparr>content = ''new'', mode = 0x1A4, uid = 0, gid = 0\<rparr>),
          None)
   \<and> fs0 ''/etc/.app.conf77'' = None"
proof -
  have tf: "TempFile env_noexec fs0 ''/etc'' ''.app.conf''
     = (fs0(''/etc/.app.conf77'' \<mapsto> \<lparr>content = [], mode = 0x180, uid = 1000, gid = 1000\<rparr>),
        Inr ''/etc/.app.conf77'')"
    by (rule TempFile_example) (simp_all add: env_noexec_def)
  have pf: "ParseFS env_noexec fs0 name ''templates/app.tmpl'' = Inr ''new''" for name
    by (simp add: ParseFS_def path_examples env_noexec_def env0_def fs0_def)
  have ex: "template_Execute env_noexec tmpl store data
              = (''ne'', Some ''template: app.tmpl:1:3: executing: key does not exist'')" for tmpl store data
    by (simp add: env_noexec_def)
  have rm: "remove_err env_noexec name = None" for name
    by (simp add: env_noexec_def env0_def)
  have src: "fs0 ''templates/app.tmpl'' \<noteq> None"
    by (simp add: fs0_def)
  have free: "fs0 ''/etc/.app.conf77'' = None"
    by (simp add: fs0_def)
  have fail: "snd (snd (CreateStageFile env_noexec tr0 fs0))
     = Some ''template: app.tmpl:1:3: executing: key does not exist''"
    by (simp add: CreateStageFile_def IsFileExist_def tr0_def stage_names tf pf ex src)
  have tfs: "TempFile env_sticky fs0 ''/etc'' ''.app.conf''
     = (fs0(''/etc/.app.conf77'' \<mapsto> \<lparr>content = [], mode = 0x180, uid = 1000, gid = 1000\<rparr>),
        Inr ''/etc/.app.conf77'')"
    by (rule TempFile_example) (simp_all add: env_sticky_def env_noexec_def)
  have pfs: "ParseFS env_sticky fs0 name ''templates/app.tmpl'' = Inr ''new''" for name
    by (simp add: ParseFS_def path_examples env_sticky_def env_noexec_def env0_def fs0_def)
  have exs: "template_Execute env_sticky tmpl store data
              = (''ne'', Some ''template: app.tmpl:1:3: executing: key does not exist'')" for tmpl store data
    by (simp add: env_sticky_def env_noexec_def)
  have rms: "remove_err env_sticky name = Some (''remove '' @ name @ '': operation not permitted'')" for name
    by (simp add: env_sticky_def)
  have sticky: "CreateStageFile env_sticky tr0 fs0
       = (tr0,
          fs0(''/etc/.app.conf77'' \<mapsto> \<lparr>content = ''ne'', mode = 0x180, uid = 1000, gid = 1000\<rparr>),
          Some ''template: app.tmpl:1:3: executing: key does not exist'')"
    by (simp add: CreateStageFile_def IsFileExist_def tr0_def stage_names tfs pfs exs src
          Write_def fst_Remove rms)
  have tf0: "TempFile env0 fs0 ''/etc'' ''.app.conf''
     = (fs0(''/etc/.app.conf77'' \<mapsto> \<lparr>content = [], mode = 0x180, uid = 1000, gid = 1000\<rparr>),
        Inr ''/etc/.app.conf77'')"
    by (rule TempFile_example) simp_all
  have pf0: "ParseFS env0 fs0 name ''templates/app.tmpl'' = Inr ''new''" for name
    by (simp add: ParseFS_def path_examples env0_def fs0_def)
  have ex0: "template_Execute env0 tmpl store data = (tmpl, None)" for tmpl store data
    by (simp add: env0_def)
  have ch0: "chmod_err env0 name = None" "chown_err env0 name = None" for name
    by (simp_all add: env0_def)
  have ok: "CreateStageFile env0 tr0 fs0
       = (tr0\<lparr>StageFile := Some ''/etc/.app.conf77''\<rparr>,
          fs0(''/etc/.app.conf77'' \<mapsto> \<lparr>content = ''new'', mode = 0x1A4, uid = 0, gid = 0\<rparr>),
          None)"
    by (simp add: CreateStageFile_def IsFileExist_def tr0_def stage_names tf0 pf0 ex0 src ch0
          Write_def Chmod_def Chown_def)
  from CreateStageFile_errors [of env_noexec tr0 fs0] fail rm
  have "fst (CreateStageFile env_noexec tr0 fs0) = tr0
        \<and> fst (snd (CreateStageFile env_noexec tr0 fs0)) = fs0"
    by simp
  with CreateStageFile_errors [of env_sticky tr0 fs0] CreateStageFile_errors [of env0 tr0 fs0]
    fail sticky rms ok free
  show ?thesis by simp
qed

text \<open>
  As the claim is stated it fails: where \<open>Chmod\<close> and \<open>Chown\<close> are refused,
  \<open>CreateStageFile\<close> still returns no error, and the staged file keeps the mode \<open>0600\<close> and
  the owner it was created with, not the resolved mode \<open>0644\<close> and owner 0. The template
  is named by a path that is not rooted, \<open>templates/app.tmpl\<close>, which is parsed.
\<close>

theorem CreateStageFile_chmod_counterexample:
  "chmod_err env_eperm ''/etc/.app.conf77'' = Some ''chmod /etc/.app.conf77: operation not permitted''
   \<and> chown_err env_eperm ''/etc/.app.conf77'' = Some ''chown /etc/.app.conf77: operation not permitted''
   \<and> Src tr0 = ''templates/app.tmpl''
   \<and> ParseFS env_eperm fs0 (Base (Src tr0)) (Src tr0) = Inr ''new''
   \<and> CreateStageFile env_eperm tr0 fs0
       = (tr0\<lparr>StageFile := Some ''/etc/.app.conf77''\<rparr>,
          fs0(''/etc/.app.conf77'' \<mapsto> \<lparr>content = ''new'', mode = 0x180, uid = 1000, gid = 1000\<rparr>),
          None)
   \<and> FileMode tr0 = 0x1A4 \<and> Uid tr0 = 0 \<and> Gid tr0 = 0"
proof -
  have tf: "TempFile env_eperm fs0 ''/etc'' ''.app.conf''
     = (fs0(''/etc/.app.conf77'' \<mapsto> \<lparr>content = [], mode = 0x180, uid = 1000, gid = 1000\<rparr>),
        Inr ''/etc/.app.conf77'')"
    by (rule TempFile_example) (simp_all add: env_eperm_def)
  have pf: "ParseFS env_eperm fs0 name ''templates/app.tmpl'' = Inr ''new''" for name
    by (simp add: ParseFS_def path_examples env_eperm_def env0_def fs0_def)
  have ex: "template_Execute env_eperm tmpl store data = (tmpl, None)" for tmpl store data
    by (simp add: env_eperm_def env0_def)
  have src: "fs0 ''templates/app.tmpl'' \<noteq> None"
    by (simp add: fs0_def)
  have ch: "chmod_err env_eperm ''/etc/.app.conf77'' = Some ''chmod /etc/.app.conf77: operation not permitted''"
      "chown_err env_eperm ''/etc/.app.conf77'' = Some ''chown /etc/.app.conf77: operation not permitted''"
    by (simp_all add: env_eperm_def)
  have "CreateStageFile env_eperm tr0 fs0
       = (tr0\<lparr>StageFile := Some ''/etc/.app.conf77''\<rparr>,
          fs0(''/etc/.app.conf77'' \<mapsto> \<lparr>content = ''new'', mode = 0x180, uid = 1000, gid = 1000\<rparr>),
          None)"
    by (simp add: CreateStageFile_def IsFileExist_def tr0_def stage_names tf pf ex src ch
          Write_def Chmod_def Chown_def)
  with ch pf show ?thesis by (simp add: tr0_def)
qed

text \<open>
  A template named by a rooted path is never staged: the adapter refuses the name, and
  the step returns that error before a temporary file is created.
\<close>

lemma CreateStageFile_rooted_Src:
  assumes "HasPrefix (Src t) ''/''" and "\<not> hasMeta (Src t)"
  shows "snd (snd (CreateStageFile env t fs)) \<noteq> None \<and> fst (snd (CreateStageFile env t fs)) = fs"
  using assms ValidPath_rooted [OF assms(1)]
  by (simp add: CreateStageFile_def ParseFS_def IsFileExist_def)

lemma CreateStageFile_rooted_example:
  "CreateStageFile env0 (tr0\<lparr>Src := ''/etc/confd/templates/app.tmpl''\<rparr>)
      (fs0(''/etc/confd/templates/app.tmpl'' \<mapsto> \<lparr>content = ''new'', mode = 0x1A4, uid = 0, gid = 0\<rparr>))
     = (tr0\<lparr>Src := ''/etc/confd/templates/app.tmpl''\<rparr>,
        fs0(''/etc/confd/templates/app.tmpl'' \<mapsto> \<lparr>content = ''new'', mode = 0x1A4, uid = 0, gid = 0\<rparr>),
        Some ''Unable to process template /etc/confd/templates/app.tmpl, open /etc/confd/templates/app.tmpl: invalid argument'')"
  by (simp add: CreateStageFile_def ParseFS_def IsFileExist_def path_examples PathError_def
        ErrInvalid_def tr0_def env0_def)

section \<open>Synchronising\<close>

lemma deferred_Remove_other: "p \<noteq> staged \<Longrightarrow> fst (deferred_Remove env t staged fs) p = fs p"
  by (simp add: deferred_Remove_def Remove_def split: option.splits)

lemma deferred_Remove_eq:
  "deferred_Remove env t staged fs =
     (if keepStageFile t then (fs, [])
      else (fst (Remove env fs staged), [Removed staged (snd (Remove env fs staged))]))"
  by (auto simp: deferred_Remove_def split: prod.splits)

lemma no_remove_err:
  "remove_err env0 name = None" "remove_err env_busy name = None"
  "remove_err env_denied name = None" "remove_err env_full name = None"
  "remove_err (env0\<lparr>IsConfigChanged := cmp\<rparr>) name = None"
  by (simp_all add: env0_def env_busy_def env_denied_def env_full_def)

lemma deferred_Remove_events:
  "Checked e \<notin> set (snd (deferred_Remove env t staged fs))"
  "Renamed a b e \<notin> set (snd (deferred_Remove env t staged fs))"
  by (simp_all add: deferred_Remove_eq)

text \<open>Nothing but the comparison depends on how the comparison is made.\<close>

lemma IsConfigChanged_update_irrelevant:
  "check (env\<lparr>IsConfigChanged := cmp\<rparr>) fs t = check env fs t"
  "reload (env\<lparr>IsConfigChanged := cmp\<rparr>) fs t = reload env fs t"
  "Rename (env\<lparr>IsConfigChanged := cmp\<rparr>) fs a b = Rename env fs a b"
  "ReadFile (env\<lparr>IsConfigChanged := cmp\<rparr>) fs a = ReadFile env fs a"
  "WriteFile (env\<lparr>IsConfigChanged := cmp\<rparr>) fs a data perm = WriteFile env fs a data perm"
  "Chown (env\<lparr>IsConfigChanged := cmp\<rparr>) fs a u g = Chown env fs a u g"
  "deferred_Remove (env\<lparr>IsConfigChanged := cmp\<rparr>) t a fs = deferred_Remove env t a fs"
  by (simp_all add: check_def reload_def runCommand_def Rename_def ReadFile_def Open_def
        WriteFile_def Chown_def new_file_def deferred_Remove_def Remove_def
        cong: option.case_cong sum.case_cong prod.case_cong)

text \<open>The check is called only past the no-op return, for a changed candidate.\<close>

lemma sync_Checked:
  assumes "StageFile t = Some staged"
      and "sync env t fs = Return (fs', evs, r)"
      and "Checked c \<in> set evs"
  shows "\<not> noop t \<and> fst (IsConfigChanged env fs staged (Dest t))
         \<and> \<not> syncOnly t \<and> CheckCmd t \<noteq> [] \<and> check env fs t = Return c"
  using assms
  by (auto simp: sync_def sync_body_def Let_def deferred_Remove_eq
           split: prod.splits if_splits outcome.splits option.splits sum.splits)

lemma sync_check_failed:
  assumes "StageFile t = Some staged"
      and "\<not> noop t" and "fst (IsConfigChanged env fs staged (Dest t))"
      and "\<not> syncOnly t" and "CheckCmd t \<noteq> []"
      and "check env fs t = Return (Some err)"
  shows "sync env t fs = Return (fst (deferred_Remove env t staged fs),
                                 Checked (Some err) # snd (deferred_Remove env t staged fs),
                                 Some (''Config check failed: '' @ err))"
  using assms
  by (cases "IsConfigChanged env fs staged (Dest t)")
     (simp add: sync_def sync_body_def split: prod.splits)

text \<open>
  C1. In every run of \<open>sync\<close> in which the check is made and fails (the command template
  does not parse or execute, or the command cannot be run or exits nonzero), \<open>sync\<close>
  returns the error "Config check failed: ..." and the destination is what it was
  before: the check is the only call made, apart from the deferred removal of the
  staged file, so nothing is renamed, written or chowned. The check is made exactly in
  the cycles the claim names, a changed candidate with a check command configured and
  sync-only off, when no-op mode, which returns before the check, is off as well.
\<close>

theorem sync_check_failure:
  assumes "StageFile t = Some staged" and "staged \<noteq> Dest t"
      and "sync env t fs = Return (fs', evs, r)"
      and "Checked (Some err) \<in> set evs"
  shows "r = Some (''Config check failed: '' @ err)
         \<and> fs' (Dest t) = fs (Dest t)
         \<and> evs = Checked (Some err) # snd (deferred_Remove env t staged fs)
         \<and> fst (IsConfigChanged env fs staged (Dest t)) \<and> CheckCmd t \<noteq> [] \<and> \<not> syncOnly t
         \<and> \<not> noop t"
proof -
  from sync_Checked [OF assms(1,3,4)]
  have st: "\<not> noop t" "fst (IsConfigChanged env fs staged (Dest t))" "\<not> syncOnly t"
      "CheckCmd t \<noteq> []" "check env fs t = Return (Some err)"
    by simp_all
  from sync_check_failed [OF assms(1) st] assms(3)
  have "fs' = fst (deferred_Remove env t staged fs)"
      "evs = Checked (Some err) # snd (deferred_Remove env t staged fs)"
      "r = Some (''Config check failed: '' @ err)"
    by simp_all
  with st assms(2) show ?thesis by (simp add: deferred_Remove_other)
qed


lemma check_failure_run:
  "sync env0 (tr0\<lparr>CheckCmd := ''false''\<rparr>) fs0
     = Return (fs0(''/etc/.app.conf7'' := None),
               [Checked (Some ''exit status 1''), Removed ''/etc/.app.conf7'' None],
               Some ''Config check failed: exit status 1'')"
  by (simp add: tr0_def env0_def fs0_def check_def runCommand_def sync_def sync_body_def
        deferred_Remove_eq Remove_def)

theorem sync_check_failure_witness:
  "StageFile (tr0\<lparr>CheckCmd := ''false''\<rparr>) = Some ''/etc/.app.conf7''
   \<and> ''/etc/.app.conf7'' \<noteq> Dest (tr0\<lparr>CheckCmd := ''false''\<rparr>)
   \<and> sync env0 (tr0\<lparr>CheckCmd := ''false''\<rparr>) fs0
       = Return (fs0(''/etc/.app.conf7'' := None),
                 [Checked (Some ''exit status 1''), Removed ''/etc/.app.conf7'' None],
                 Some ''Config check failed: exit status 1'')
   \<and> Checked (Some ''exit status 1'')
       \<in> set [Checked (Some ''exit status 1''), Removed ''/etc/.app.conf7'' None]
   \<and> (fs0(''/etc/.app.conf7'' := None)) (Dest (tr0\<lparr>CheckCmd := ''false''\<rparr>))
       = fs0 (Dest (tr0\<lparr>CheckCmd := ''false''\<rparr>))
   \<and> \<not> noop (tr0\<lparr>CheckCmd := ''false''\<rparr>)"
proof -
  have h: "StageFile (tr0\<lparr>CheckCmd := ''false''\<rparr>) = Some ''/etc/.app.conf7''"
      "''/etc/.app.conf7'' \<noteq> Dest (tr0\<lparr>CheckCmd := ''false''\<rparr>)"
    by (simp_all add: tr0_def)
  have e: "Checked (Some ''exit status 1'')
             \<in> set [Checked (Some ''exit status 1''), Removed ''/etc/.app.conf7'' None]"
    by simp
  from sync_check_failure [OF h check_failure_run e] h check_failure_run e show ?thesis by simp
qed

text \<open>
  C4. In no-op mode \<open>sync\<close> returns no error and leaves the destination as it was; it
  makes no call but the deferred removal of the staged file. Its result is the same
  whatever the comparison answers: the caller is given nothing that tells a candidate
  that differs from one that does not.
\<close>

theorem sync_noop:
  assumes "StageFile t = Some staged" and "staged \<noteq> Dest t" and "noop t"
  shows "sync env t fs = Return (fst (deferred_Remove env t staged fs),
                                 snd (deferred_Remove env t staged fs), None)
         \<and> fst (deferred_Remove env t staged fs) (Dest t) = fs (Dest t)
         \<and> sync (env\<lparr>IsConfigChanged := cmp\<rparr>) t fs = sync env t fs"
  using assms
  by (simp add: sync_def sync_body_def deferred_Remove_other IsConfigChanged_update_irrelevant
        split: prod.splits)

theorem sync_noop_witness:
  "StageFile (tr0\<lparr>noop := True\<rparr>) = Some ''/etc/.app.conf7''
   \<and> ''/etc/.app.conf7'' \<noteq> Dest (tr0\<lparr>noop := True\<rparr>)
   \<and> noop (tr0\<lparr>noop := True\<rparr>)
   \<and> sync env0 (tr0\<lparr>noop := True\<rparr>) fs0
       = Return (fs0(''/etc/.app.conf7'' := None), [Removed ''/etc/.app.conf7'' None], None)
   \<and> (fs0(''/etc/.app.conf7'' := None)) ''/etc/app.conf'' = fs0 ''/etc/app.conf''
   \<and> sync (env0\<lparr>IsConfigChanged := (\<lambda>fs src dest. (False, None))\<rparr>) (tr0\<lparr>noop := True\<rparr>) fs0
       = sync env0 (tr0\<lparr>noop := True\<rparr>) fs0"
proof -
  have h: "StageFile (tr0\<lparr>noop := True\<rparr>) = Some ''/etc/.app.conf7''"
      "''/etc/.app.conf7'' \<noteq> Dest (tr0\<lparr>noop := True\<rparr>)"
      "noop (tr0\<lparr>noop := True\<rparr>)"
    by (simp_all add: tr0_def)
  have k: "\<not> keepStageFile (tr0\<lparr>noop := True\<rparr>)"
    by (simp add: tr0_def)
  from sync_noop [OF h, of env0 fs0 "\<lambda>fs src dest. (False, None)"] k h show ?thesis
    by (simp add: deferred_Remove_eq Remove_def no_remove_err fs0_files)
qed

text \<open>
  A changed result is not surfaced: in no-op mode, a destination that differs from the
  candidate and one that equals it give the caller the same return value, no error.
\<close>

theorem sync_noop_changed_counterexample:
  "fst (IsConfigChanged env0 fs0 ''/etc/.app.conf7'' (Dest (tr0\<lparr>noop := True\<rparr>)))
   \<and> \<not> fst (IsConfigChanged env0 (fs0(''/etc/app.conf'' \<mapsto> \<lparr>content = ''new'', mode = 0x1A0, uid = 33, gid = 33\<rparr>))
              ''/etc/.app.conf7'' (Dest (tr0\<lparr>noop := True\<rparr>)))
   \<and> sync env0 (tr0\<lparr>noop := True\<rparr>) fs0
       = Return (fs0(''/etc/.app.conf7'' := None), [Removed ''/etc/.app.conf7'' None], None)
   \<and> sync env0 (tr0\<lparr>noop := True\<rparr>)
        (fs0(''/etc/app.conf'' \<mapsto> \<lparr>content = ''new'', mode = 0x1A0, uid = 33, gid = 33\<rparr>))
       = Return ((fs0(''/etc/app.conf'' \<mapsto> \<lparr>content = ''new'', mode = 0x1A0, uid = 33, gid = 33\<rparr>))
                   (''/etc/.app.conf7'' := None), [Removed ''/etc/.app.conf7'' None], None)"
  by (simp add: tr0_def env0_def fs0_def sync_def sync_body_def deferred_Remove_eq Remove_def)

text \<open>A rename that succeeds puts the staged file in the place of the destination.\<close>

lemma Rename_ok:
  assumes "snd (Rename env fs a b) = None"
  shows "fs a \<noteq> None \<and> fst (Rename env fs a b) b = fs a"
  using assms by (auto simp: Rename_def split: option.splits)

lemma sync_after_rename:
  assumes "StageFile t = Some staged"
      and "\<not> noop t" and "fst (IsConfigChanged env fs staged (Dest t))"
      and "syncOnly t \<or> CheckCmd t = [] \<or> check env fs t = Return None"
      and "snd (Rename env fs staged (Dest t)) = None"
  shows "sync env t fs =
     (let fs1 = fst (Rename env fs staged (Dest t));
          pre = (if \<not> syncOnly t \<and> CheckCmd t \<noteq> [] then [Checked None] else [])
                @ [Renamed staged (Dest t) None]
      in if \<not> syncOnly t \<and> ReloadCmd t \<noteq> [] then
           Return (fst (deferred_Remove env t staged fs1),
                   pre @ Reloaded (reload env fs1 t) # snd (deferred_Remove env t staged fs1),
                   reload env fs1 t)
         else Return (fst (deferred_Remove env t staged fs1),
                      pre @ snd (deferred_Remove env t staged fs1), None))"
proof -
  obtain ok cerr where c: "IsConfigChanged env fs staged (Dest t) = (ok, cerr)"
    by (cases "IsConfigChanged env fs staged (Dest t)")
  with assms(3) have ok: ok by simp
  obtain fs1 where rn: "Rename env fs staged (Dest t) = (fs1, None)"
    using assms(5) by (cases "Rename env fs staged (Dest t)") simp
  show ?thesis
  proof (cases "\<not> syncOnly t \<and> CheckCmd t \<noteq> []")
    case True
    with assms(4) have chk: "check env fs t = Return None" by auto
    from True have cond: "(\<not> syncOnly t \<and> CheckCmd t \<noteq> []) = True" by simp
    show ?thesis
      unfolding sync_def sync_body_def
      by (simp add: assms(1,2) c ok rn cond chk Let_def split: prod.splits)
  next
    case False
    then have cond: "(\<not> syncOnly t \<and> CheckCmd t \<noteq> []) = False" by simp
    show ?thesis
      unfolding sync_def sync_body_def
      by (simp add: assms(1,2) c ok rn cond Let_def split: prod.splits)
  qed
qed

text \<open>
  C9. When the comparison returns an error, \<open>sync\<close> does not abort and does not return
  that error: it goes on with the answer that came with the error, exactly as it would
  had the comparison returned the same answer without an error. With the answer
  "unchanged" it makes no call but the deferred removal of the staged file and returns
  no error. With the answer "changed", no-op mode off, the check passing or not made,
  and a rename that succeeds, the staged file (a file other than the destination)
  becomes the destination, and \<open>sync\<close> returns what the reload command returns if one
  is configured outside sync-only mode, and no error otherwise.
\<close>

theorem sync_comparison_error_ignored:
  assumes "StageFile t = Some staged"
      and "IsConfigChanged env fs staged (Dest t) = (ok, Some err)"
  shows "sync env t fs = sync (env\<lparr>IsConfigChanged := (\<lambda>fs src dest. (ok, None))\<rparr>) t fs
         \<and> (\<not> ok \<longrightarrow>
               sync env t fs = Return (fst (deferred_Remove env t staged fs),
                                       snd (deferred_Remove env t staged fs), None))
         \<and> (ok \<and> \<not> noop t \<and> (syncOnly t \<or> CheckCmd t = [] \<or> check env fs t = Return None)
              \<and> snd (Rename env fs staged (Dest t)) = None \<and> staged \<noteq> Dest t \<longrightarrow>
               (\<exists>fs' evs.
                  sync env t fs
                    = Return (fs', evs,
                              if \<not> syncOnly t \<and> ReloadCmd t \<noteq> []
                              then reload env (fst (Rename env fs staged (Dest t))) t else None)
                  \<and> fs staged \<noteq> None \<and> fs' (Dest t) = fs staged
                  \<and> Renamed staged (Dest t) None \<in> set evs))"
proof -
  have same: "sync env t fs = sync (env\<lparr>IsConfigChanged := (\<lambda>fs src dest. (ok, None))\<rparr>) t fs"
    using assms
    by (simp add: sync_def sync_body_def IsConfigChanged_update_irrelevant
          cong: option.case_cong sum.case_cong prod.case_cong outcome.case_cong if_cong)
  have unchanged: "sync env t fs = Return (fst (deferred_Remove env t staged fs),
                                           snd (deferred_Remove env t staged fs), None)"
    if "\<not> ok"
    using assms that by (simp add: sync_def sync_body_def split: prod.splits)
  have changed: "\<exists>fs' evs.
                  sync env t fs
                    = Return (fs', evs,
                              if \<not> syncOnly t \<and> ReloadCmd t \<noteq> []
                              then reload env (fst (Rename env fs staged (Dest t))) t else None)
                  \<and> fs staged \<noteq> None \<and> fs' (Dest t) = fs staged
                  \<and> Renamed staged (Dest t) None \<in> set evs"
    if h: "ok" "\<not> noop t" "syncOnly t \<or> CheckCmd t = [] \<or> check env fs t = Return None"
       "snd (Rename env fs staged (Dest t)) = None" "staged \<noteq> Dest t"
  proof -
    from assms(2) h(1) have c: "fst (IsConfigChanged env fs staged (Dest t))" by simp
    note eq = sync_after_rename [OF assms(1) h(2) c h(3) h(4)]
    from Rename_ok [OF h(4)] h(5) show ?thesis
      by (simp add: eq Let_def deferred_Remove_other)
  qed
  from same unchanged changed show ?thesis by blast
qed

theorem sync_comparison_error_ignored_witness:
  "StageFile tr0 = Some ''/etc/.app.conf7''
   \<and> IsConfigChanged (env0\<lparr>IsConfigChanged :=
          (\<lambda>fs src dest. (False, Some ''open /etc/app.conf: permission denied''))\<rparr>)
        fs0 ''/etc/.app.conf7'' (Dest tr0) = (False, Some ''open /etc/app.conf: permission denied'')
   \<and> sync (env0\<lparr>IsConfigChanged :=
          (\<lambda>fs src dest. (False, Some ''open /etc/app.conf: permission denied''))\<rparr>) tr0 fs0
       = sync (env0\<lparr>IsConfigChanged := (\<lambda>fs src dest. (False, None))\<rparr>) tr0 fs0
   \<and> sync (env0\<lparr>IsConfigChanged :=
          (\<lambda>fs src dest. (False, Some ''open /etc/app.conf: permission denied''))\<rparr>) tr0 fs0
       = Return (fs0(''/etc/.app.conf7'' := None), [Removed ''/etc/.app.conf7'' None], None)
   \<and> IsConfigChanged (env0\<lparr>IsConfigChanged :=
          (\<lambda>fs src dest. (True, Some ''open /etc/app.conf: permission denied''))\<rparr>)
        fs0 ''/etc/.app.conf7'' (Dest tr0) = (True, Some ''open /etc/app.conf: permission denied'')
   \<and> \<not> noop tr0 \<and> CheckCmd tr0 = [] \<and> ''/etc/.app.conf7'' \<noteq> Dest tr0
   \<and> snd (Rename (env0\<lparr>IsConfigChanged :=
          (\<lambda>fs src dest. (True, Some ''open /etc/app.conf: permission denied''))\<rparr>)
         fs0 ''/etc/.app.conf7'' (Dest tr0)) = None
   \<and> (\<exists>fs' evs. sync (env0\<lparr>IsConfigChanged :=
          (\<lambda>fs src dest. (True, Some ''open /etc/app.conf: permission denied''))\<rparr>) tr0 fs0
         = Return (fs', evs, None)
       \<and> fs' (Dest tr0) = fs0 ''/etc/.app.conf7''
       \<and> Renamed ''/etc/.app.conf7'' (Dest tr0) None \<in> set evs)"
proof -
  let ?no = "env0\<lparr>IsConfigChanged :=
          (\<lambda>fs src dest. (False, Some ''open /etc/app.conf: permission denied''))\<rparr>"
  let ?yes = "env0\<lparr>IsConfigChanged :=
          (\<lambda>fs src dest. (True, Some ''open /etc/app.conf: permission denied''))\<rparr>"
  have cn: "IsConfigChanged ?no fs0 ''/etc/.app.conf7'' (Dest tr0)
              = (False, Some ''open /etc/app.conf: permission denied'')"
    and cy: "IsConfigChanged ?yes fs0 ''/etc/.app.conf7'' (Dest tr0)
              = (True, Some ''open /etc/app.conf: permission denied'')"
    by simp_all
  have rn: "snd (Rename ?yes fs0 ''/etc/.app.conf7'' (Dest tr0)) = None"
    by (simp add: Rename_def env0_def fs0_files)
  have dr: "deferred_Remove ?no tr0 ''/etc/.app.conf7'' fs0
              = (fs0(''/etc/.app.conf7'' := None), [Removed ''/etc/.app.conf7'' None])"
    by (simp add: deferred_Remove_eq tr0_fields Remove_def no_remove_err fs0_files)
  have ne: "''/etc/.app.conf7'' \<noteq> Dest tr0"
    by (simp add: tr0_fields)
  note unchanged = sync_comparison_error_ignored [OF tr0_fields(1) cn]
  note changed = sync_comparison_error_ignored [OF tr0_fields(1) cy]
  have a: "sync ?no tr0 fs0 = sync (env0\<lparr>IsConfigChanged := (\<lambda>fs src dest. (False, None))\<rparr>) tr0 fs0"
    using unchanged [THEN conjunct1] by simp
  have b: "sync ?no tr0 fs0
             = Return (fs0(''/etc/.app.conf7'' := None), [Removed ''/etc/.app.conf7'' None], None)"
    using unchanged [THEN conjunct2, THEN conjunct1] dr by simp
  have c: "\<exists>fs' evs. sync ?yes tr0 fs0 = Return (fs', evs, None)
             \<and> fs' (Dest tr0) = fs0 ''/etc/.app.conf7''
             \<and> Renamed ''/etc/.app.conf7'' (Dest tr0) None \<in> set evs"
    using changed [THEN conjunct2, THEN conjunct2] rn ne by (simp add: tr0_fields) blast
  show ?thesis
    by (intro conjI tr0_fields cn a b cy ne rn c)
qed

text \<open>
  As the claim is stated it fails: a comparison that fails with the answer "changed"
  is followed by the rename, the destination is replaced and \<open>sync\<close> returns no error.
  With the answer "unchanged" nothing is replaced, and \<open>sync\<close> returns no error either.
\<close>

theorem sync_comparison_error_counterexample:
  "IsConfigChanged (env0\<lparr>IsConfigChanged :=
       (\<lambda>fs src dest. (True, Some ''open /etc/app.conf: permission denied''))\<rparr>)
     fs0 ''/etc/.app.conf7'' (Dest tr0) = (True, Some ''open /etc/app.conf: permission denied'')
   \<and> sync (env0\<lparr>IsConfigChanged :=
          (\<lambda>fs src dest. (True, Some ''open /etc/app.conf: permission denied''))\<rparr>) tr0 fs0
       = Return (fs0(''/etc/.app.conf7'' := None,
                     ''/etc/app.conf'' \<mapsto> \<lparr>content = ''new'', mode = 0x1A4, uid = 0, gid = 0\<rparr>),
                 [Renamed ''/etc/.app.conf7'' ''/etc/app.conf'' None,
                  Removed ''/etc/.app.conf7'' (Some ''remove /etc/.app.conf7: no such file or directory'')],
                 None)
   \<and> fs0 ''/etc/app.conf'' = Some \<lparr>content = ''old'', mode = 0x1A0, uid = 33, gid = 33\<rparr>
   \<and> sync (env0\<lparr>IsConfigChanged :=
          (\<lambda>fs src dest. (False, Some ''open /etc/app.conf: permission denied''))\<rparr>) tr0 fs0
       = Return (fs0(''/etc/.app.conf7'' := None), [Removed ''/etc/.app.conf7'' None], None)"
  by (simp add: tr0_def env0_def fs0_def sync_def sync_body_def deferred_Remove_eq Rename_def
        Remove_def ErrNotExist_def)

text \<open>The rename is attempted only past the no-op return and the check.\<close>

lemma sync_Renamed:
  assumes "StageFile t = Some staged"
      and "sync env t fs = Return (fs', evs, r)"
      and "Renamed a b e \<in> set evs"
  shows "\<not> noop t \<and> fst (IsConfigChanged env fs staged (Dest t))
         \<and> (syncOnly t \<or> CheckCmd t = [] \<or> check env fs t = Return None)
         \<and> snd (Rename env fs staged (Dest t)) = e"
  using assms
  by (auto simp: sync_def sync_body_def Let_def deferred_Remove_eq
           split: prod.splits if_splits outcome.splits option.splits sum.splits)

lemma sync_after_rename_error:
  assumes "StageFile t = Some staged"
      and "\<not> noop t" and "fst (IsConfigChanged env fs staged (Dest t))"
      and "syncOnly t \<or> CheckCmd t = [] \<or> check env fs t = Return None"
      and "snd (Rename env fs staged (Dest t)) = Some err"
  shows "sync env t fs =
     (let pre = (if \<not> syncOnly t \<and> CheckCmd t \<noteq> [] then [Checked None] else [])
                @ [Renamed staged (Dest t) (Some err)]
      in if Contains err ''device or resource busy'' then
           (case ReadFile env fs staged of
              Inl rerr \<Rightarrow>
                Return (fst (deferred_Remove env t staged fs),
                        pre @ Read staged (Some rerr) # snd (deferred_Remove env t staged fs),
                        Some rerr)
            | Inr contents \<Rightarrow>
                (let (fs1, werr) = WriteFile env fs (Dest t) contents (FileMode t);
                     (fs2, cerr) = Chown env fs1 (Dest t) (Uid t) (Gid t);
                     fallback = [Read staged None,
                                 Written (Dest t) contents (FileMode t) werr,
                                 Chowned (Dest t) (Uid t) (Gid t) cerr]
                 in if werr \<noteq> None then
                      Return (fst (deferred_Remove env t staged fs2),
                              pre @ fallback @ snd (deferred_Remove env t staged fs2), werr)
                    else if \<not> syncOnly t \<and> ReloadCmd t \<noteq> [] then
                      Return (fst (deferred_Remove env t staged fs2),
                              pre @ fallback @ Reloaded (reload env fs2 t)
                                # snd (deferred_Remove env t staged fs2),
                              reload env fs2 t)
                    else
                      Return (fst (deferred_Remove env t staged fs2),
                              pre @ fallback @ snd (deferred_Remove env t staged fs2), None)))
         else Return (fst (deferred_Remove env t staged fs),
                      pre @ snd (deferred_Remove env t staged fs), Some err))"
proof -
  obtain ok cerr where c: "IsConfigChanged env fs staged (Dest t) = (ok, cerr)"
    by (cases "IsConfigChanged env fs staged (Dest t)")
  with assms(3) have ok: ok by simp
  have rn: "Rename env fs staged (Dest t) = (fs, Some err)"
    using assms(5) Rename_error_fs [OF assms(5)] by (cases "Rename env fs staged (Dest t)") simp
  show ?thesis
  proof (cases "\<not> syncOnly t \<and> CheckCmd t \<noteq> []")
    case True
    with assms(4) have chk: "check env fs t = Return None" by auto
    from True have cond: "(\<not> syncOnly t \<and> CheckCmd t \<noteq> []) = True" by simp
    show ?thesis
      unfolding sync_def sync_body_def
      by (simp add: assms(1,2) c ok rn cond chk Let_def split: sum.splits prod.splits)
  next
    case False
    then have cond: "(\<not> syncOnly t \<and> CheckCmd t \<noteq> []) = False" by simp
    show ?thesis
      unfolding sync_def sync_body_def
      by (simp add: assms(1,2) c ok rn cond Let_def split: sum.splits prod.splits)
  qed
qed

lemma fallback_content:
  assumes "WriteFile env fs name data perm = (fs1, None)" and "Chown env fs1 name u g = (fs2, cerr)"
  shows "map_option content (fs2 name) = Some data"
  using WriteFile_content [of env fs name data perm] Chown_content [of env fs1 name u g name] assms
  by simp

text \<open>
  C5. In every run of \<open>sync\<close> in which the rename of the staged file onto the destination
  fails: if the error's text does not contain "device or resource busy", \<open>sync\<close> returns
  that error and the destination is untouched. If it does, \<open>sync\<close> reads the staged
  file and returns the error if that fails; otherwise it writes the content to the
  destination with \<open>WriteFile\<close> and the resolved mode, then calls \<open>Chown\<close> on the
  destination with the resource's uid and gid, whose result it discards. A failed write
  is returned. After a successful write the destination holds the staged content, and
  \<open>sync\<close> returns what the reload command returns if one is configured outside sync-only
  mode, and no error otherwise.
\<close>

theorem sync_rename_failure:
  assumes "StageFile t = Some staged" and "staged \<noteq> Dest t"
      and "sync env t fs = Return (fs', evs, r)"
      and "Renamed staged (Dest t) (Some err) \<in> set evs"
  shows "\<exists>post. evs = (if \<not> syncOnly t \<and> CheckCmd t \<noteq> [] then [Checked None] else [])
                      @ Renamed staged (Dest t) (Some err) # post
           \<and> (\<not> Contains err ''device or resource busy'' \<longrightarrow>
                 r = Some err \<and> fs' (Dest t) = fs (Dest t)
                 \<and> post = snd (deferred_Remove env t staged fs))
           \<and> (Contains err ''device or resource busy'' \<longrightarrow>
                 (\<forall>rerr. ReadFile env fs staged = Inl rerr \<longrightarrow>
                    r = Some rerr \<and> fs' (Dest t) = fs (Dest t)
                    \<and> post = Read staged (Some rerr) # snd (deferred_Remove env t staged fs))
               \<and> (\<forall>contents. ReadFile env fs staged = Inr contents \<longrightarrow>
                    (let (fs1, werr) = WriteFile env fs (Dest t) contents (FileMode t);
                         (fs2, cerr) = Chown env fs1 (Dest t) (Uid t) (Gid t);
                         fallback = [Read staged None,
                                     Written (Dest t) contents (FileMode t) werr,
                                     Chowned (Dest t) (Uid t) (Gid t) cerr]
                     in fs' = fst (deferred_Remove env t staged fs2)
                        \<and> (werr \<noteq> None \<longrightarrow>
                              r = werr \<and> post = fallback @ snd (deferred_Remove env t staged fs2))
                        \<and> (werr = None \<longrightarrow>
                              map_option content (fs' (Dest t)) = Some contents
                              \<and> (if \<not> syncOnly t \<and> ReloadCmd t \<noteq> []
                                  then r = reload env fs2 t
                                       \<and> post = fallback @ Reloaded r # snd (deferred_Remove env t staged fs2)
                                  else r = None
                                       \<and> post = fallback @ snd (deferred_Remove env t staged fs2))))))"
proof -
  from sync_Renamed [OF assms(1,3,4)]
  have st: "\<not> noop t" "fst (IsConfigChanged env fs staged (Dest t))"
      "syncOnly t \<or> CheckCmd t = [] \<or> check env fs t = Return None"
      "snd (Rename env fs staged (Dest t)) = Some err"
    by simp_all
  note eq = sync_after_rename_error [OF assms(1) st]
  show ?thesis
    using assms(2,3)
    by (auto simp: eq Let_def deferred_Remove_other split: prod.splits sum.splits if_splits
             dest: fallback_content)
qed


lemma busy_run:
  "sync env_busy tr0 fs0
     = Return ((fs0(''/etc/app.conf'' \<mapsto> \<lparr>content = ''new'', mode = 0x1A0, uid = 0, gid = 0\<rparr>))
                 (''/etc/.app.conf7'' := None),
               [Renamed ''/etc/.app.conf7'' ''/etc/app.conf''
                  (Some ''rename /etc/.app.conf7 /etc/app.conf: device or resource busy''),
                Read ''/etc/.app.conf7'' None,
                Written ''/etc/app.conf'' ''new'' 0x1A4 None,
                Chowned ''/etc/app.conf'' 0 0 None,
                Removed ''/etc/.app.conf7'' None],
               None)"
proof -
  have r: "rename_err env_busy ''/etc/.app.conf7'' ''/etc/app.conf''
             = Some ''rename /etc/.app.conf7 /etc/app.conf: device or resource busy''"
    by (simp add: env_busy_def)
  have ch: "IsConfigChanged env_busy fs0 ''/etc/.app.conf7'' ''/etc/app.conf'' = (True, None)"
    by (simp add: env_busy_def env0_def fs0_files)
  have rf: "ReadFile env_busy fs0 ''/etc/.app.conf7'' = Inr ''new''"
    by (simp add: ReadFile_def Open_def env_busy_def env0_def fs0_files)
  have wf: "WriteFile env_busy fs0 ''/etc/app.conf'' ''new'' 0x1A4
              = (fs0(''/etc/app.conf'' \<mapsto> \<lparr>content = ''new'', mode = 0x1A0, uid = 33, gid = 33\<rparr>), None)"
    by (simp add: WriteFile_def env_busy_def env0_def fs0_files)
  have co: "Chown env_busy (fs0(''/etc/app.conf'' \<mapsto> \<lparr>content = ''new'', mode = 0x1A0, uid = 33, gid = 33\<rparr>))
              ''/etc/app.conf'' 0 0
              = (fs0(''/etc/app.conf'' \<mapsto> \<lparr>content = ''new'', mode = 0x1A0, uid = 0, gid = 0\<rparr>), None)"
    by (simp add: Chown_def env_busy_def env0_def)
  show ?thesis
    by (simp add: sync_def sync_body_def tr0_fields ch Rename_def r busy_messages rf wf co
          deferred_Remove_eq Remove_def no_remove_err fs0_files)
qed

lemma denied_run:
  "sync env_denied tr0 fs0
     = Return (fs0(''/etc/.app.conf7'' := None),
               [Renamed ''/etc/.app.conf7'' ''/etc/app.conf''
                  (Some ''rename /etc/.app.conf7 /etc/app.conf: permission denied''),
                Removed ''/etc/.app.conf7'' None],
               Some ''rename /etc/.app.conf7 /etc/app.conf: permission denied'')"
proof -
  have r: "rename_err env_denied ''/etc/.app.conf7'' ''/etc/app.conf''
             = Some ''rename /etc/.app.conf7 /etc/app.conf: permission denied''"
    by (simp add: env_denied_def)
  have ch: "IsConfigChanged env_denied fs0 ''/etc/.app.conf7'' ''/etc/app.conf'' = (True, None)"
    by (simp add: env_denied_def env0_def fs0_files)
  show ?thesis
    by (simp add: sync_def sync_body_def tr0_fields ch Rename_def r busy_messages
          deferred_Remove_eq Remove_def no_remove_err fs0_files)
qed

theorem sync_rename_failure_witness:
  "StageFile tr0 = Some ''/etc/.app.conf7'' \<and> ''/etc/.app.conf7'' \<noteq> Dest tr0
   \<and> sync env_busy tr0 fs0
       = Return ((fs0(''/etc/app.conf'' \<mapsto> \<lparr>content = ''new'', mode = 0x1A0, uid = 0, gid = 0\<rparr>))
                   (''/etc/.app.conf7'' := None),
                 [Renamed ''/etc/.app.conf7'' ''/etc/app.conf''
                    (Some ''rename /etc/.app.conf7 /etc/app.conf: device or resource busy''),
                  Read ''/etc/.app.conf7'' None,
                  Written ''/etc/app.conf'' ''new'' 0x1A4 None,
                  Chowned ''/etc/app.conf'' 0 0 None,
                  Removed ''/etc/.app.conf7'' None],
                 None)
   \<and> Contains ''rename /etc/.app.conf7 /etc/app.conf: device or resource busy'' ''device or resource busy''
   \<and> ReadFile env_busy fs0 ''/etc/.app.conf7'' = Inr ''new''
   \<and> map_option content
        (((fs0(''/etc/app.conf'' \<mapsto> \<lparr>content = ''new'', mode = 0x1A0, uid = 0, gid = 0\<rparr>))
            (''/etc/.app.conf7'' := None)) (Dest tr0)) = Some ''new''
   \<and> sync env_denied tr0 fs0
       = Return (fs0(''/etc/.app.conf7'' := None),
                 [Renamed ''/etc/.app.conf7'' ''/etc/app.conf''
                    (Some ''rename /etc/.app.conf7 /etc/app.conf: permission denied''),
                  Removed ''/etc/.app.conf7'' None],
                 Some ''rename /etc/.app.conf7 /etc/app.conf: permission denied'')
   \<and> \<not> Contains ''rename /etc/.app.conf7 /etc/app.conf: permission denied'' ''device or resource busy''
   \<and> (fs0(''/etc/.app.conf7'' := None)) (Dest tr0) = fs0 (Dest tr0)"
proof -
  have ne: "''/etc/.app.conf7'' \<noteq> Dest tr0"
    by (simp add: tr0_fields)
  have rf: "ReadFile env_busy fs0 ''/etc/.app.conf7'' = Inr ''new''"
    by (simp add: ReadFile_def Open_def env_busy_def env0_def fs0_files)
  have eb: "Renamed ''/etc/.app.conf7'' (Dest tr0)
              (Some ''rename /etc/.app.conf7 /etc/app.conf: device or resource busy'')
            \<in> set [Renamed ''/etc/.app.conf7'' ''/etc/app.conf''
                      (Some ''rename /etc/.app.conf7 /etc/app.conf: device or resource busy''),
                    Read ''/etc/.app.conf7'' None,
                    Written ''/etc/app.conf'' ''new'' 0x1A4 None,
                    Chowned ''/etc/app.conf'' 0 0 None,
                    Removed ''/etc/.app.conf7'' None]"
    by (simp add: tr0_fields)
  have ed: "Renamed ''/etc/.app.conf7'' (Dest tr0)
              (Some ''rename /etc/.app.conf7 /etc/app.conf: permission denied'')
            \<in> set [Renamed ''/etc/.app.conf7'' ''/etc/app.conf''
                      (Some ''rename /etc/.app.conf7 /etc/app.conf: permission denied''),
                    Removed ''/etc/.app.conf7'' None]"
    by (simp add: tr0_fields)
  from sync_rename_failure [OF tr0_fields(1) ne busy_run eb]
       sync_rename_failure [OF tr0_fields(1) ne denied_run ed]
  show ?thesis
    using busy_messages rf busy_run denied_run ne
    by (simp add: tr0_fields)
qed

text \<open>
  The fallback does not always succeed: where the rename fails as busy and the device is
  full, the write fails after truncating the destination, and \<open>sync\<close> returns the error
  of the write.
\<close>

theorem sync_rename_failure_counterexample:
  "Contains ''rename /etc/.app.conf7 /etc/app.conf: device or resource busy'' ''device or resource busy''
   \<and> sync env_full tr0 fs0
       = Return ((fs0(''/etc/app.conf'' \<mapsto> \<lparr>content = [], mode = 0x1A0, uid = 0, gid = 0\<rparr>))
                   (''/etc/.app.conf7'' := None),
                 [Renamed ''/etc/.app.conf7'' ''/etc/app.conf''
                    (Some ''rename /etc/.app.conf7 /etc/app.conf: device or resource busy''),
                  Read ''/etc/.app.conf7'' None,
                  Written ''/etc/app.conf'' ''new'' 0x1A4 (Some ''write /etc/app.conf: no space left on device''),
                  Chowned ''/etc/app.conf'' 0 0 None,
                  Removed ''/etc/.app.conf7'' None],
                 Some ''write /etc/app.conf: no space left on device'')"
proof -
  have r: "rename_err env_full ''/etc/.app.conf7'' ''/etc/app.conf''
             = Some ''rename /etc/.app.conf7 /etc/app.conf: device or resource busy''"
    by (simp add: env_full_def env_busy_def)
  have ch: "IsConfigChanged env_full fs0 ''/etc/.app.conf7'' ''/etc/app.conf'' = (True, None)"
    by (simp add: env_full_def env_busy_def env0_def fs0_files)
  have rf: "ReadFile env_full fs0 ''/etc/.app.conf7'' = Inr ''new''"
    by (simp add: ReadFile_def Open_def env_full_def env_busy_def env0_def fs0_files)
  have wf: "WriteFile env_full fs0 ''/etc/app.conf'' ''new'' 0x1A4
              = (fs0(''/etc/app.conf'' \<mapsto> \<lparr>content = [], mode = 0x1A0, uid = 33, gid = 33\<rparr>),
                 Some ''write /etc/app.conf: no space left on device'')"
    by (simp add: WriteFile_def env_full_def env_busy_def env0_def fs0_files)
  have co: "Chown env_full (fs0(''/etc/app.conf'' \<mapsto> \<lparr>content = [], mode = 0x1A0, uid = 33, gid = 33\<rparr>))
              ''/etc/app.conf'' 0 0
              = (fs0(''/etc/app.conf'' \<mapsto> \<lparr>content = [], mode = 0x1A0, uid = 0, gid = 0\<rparr>), None)"
    by (simp add: Chown_def env_full_def env_busy_def env0_def)
  have "sync env_full tr0 fs0
       = Return ((fs0(''/etc/app.conf'' \<mapsto> \<lparr>content = [], mode = 0x1A0, uid = 0, gid = 0\<rparr>))
                   (''/etc/.app.conf7'' := None),
                 [Renamed ''/etc/.app.conf7'' ''/etc/app.conf''
                    (Some ''rename /etc/.app.conf7 /etc/app.conf: device or resource busy''),
                  Read ''/etc/.app.conf7'' None,
                  Written ''/etc/app.conf'' ''new'' 0x1A4 (Some ''write /etc/app.conf: no space left on device''),
                  Chowned ''/etc/app.conf'' 0 0 None,
                  Removed ''/etc/.app.conf7'' None],
                 Some ''write /etc/app.conf: no space left on device'')"
    by (simp add: sync_def sync_body_def tr0_fields ch Rename_def r busy_messages rf wf co
          deferred_Remove_eq Remove_def no_remove_err fs0_files)
  with busy_messages show ?thesis by simp
qed

section \<open>The whole cycle\<close>

text \<open>
  The steps before \<open>sync\<close> leave the destination alone, and the file they stage is not
  the destination when that exists: the staged file takes a name that was free.
\<close>

lemma setFileMode_Dest: "setFileMode fs t = (t', err) \<Longrightarrow> Dest t' = Dest t"
  by (auto simp: setFileMode_def split: if_splits sum.splits)

lemma setVars_Dest: "setVars t = Return (t', err) \<Longrightarrow> Dest t' = Dest t"
  by (auto simp: setVars_def split: option.splits sum.splits)

text \<open>
  In a whole cycle for a destination that exists, a failed check ends the cycle with
  its error and leaves the destination as it was before the cycle.
\<close>

lemma process_check_failure:
  assumes "fs (Dest t) \<noteq> None"
      and "process env t fs = Return (t', fs', evs, r)"
      and "Checked (Some err) \<in> set evs"
  shows "r = Some (''Config check failed: '' @ err) \<and> fs' (Dest t) = fs (Dest t)"
proof -
  obtain t1 e1 where m: "setFileMode fs t = (t1, e1)" by (cases "setFileMode fs t")
  with assms(2,3) have e1: "e1 = None" by (auto simp: process_def split: option.splits)
  from assms(2,3) m e1 obtain t2 where v: "setVars t1 = Return (t2, None)"
    by (auto simp: process_def split: outcome.splits option.splits)
  obtain t3 fs3 e3 where c: "CreateStageFile env t2 fs = (t3, fs3, e3)"
    by (cases "CreateStageFile env t2 fs") auto
  with assms(2,3) m e1 v have e3: "e3 = None"
    by (auto simp: process_def split: option.splits)
  from assms(2) m e1 v c e3 have s: "sync env t3 fs3 = Return (fs', evs, r)" and "t' = t3"
    by (auto simp: process_def split: outcome.splits)
  have d: "Dest t2 = Dest t"
    using setFileMode_Dest [OF m] setVars_Dest [OF v] by simp
  from CreateStageFile_staged [OF c [unfolded e3]] obtain temp where
    st: "StageFile t3 = Some temp" and fresh: "fs temp = None" and d3: "Dest t3 = Dest t2"
    and same: "\<forall>p. p \<noteq> temp \<longrightarrow> fs3 p = fs p"
    by blast
  from fresh assms(1) d d3 have ne: "temp \<noteq> Dest t3" by auto
  from sync_Checked [OF st s assms(3)]
  have c: "\<not> noop t3" "fst (IsConfigChanged env fs3 temp (Dest t3))" "\<not> syncOnly t3"
      "CheckCmd t3 \<noteq> []" "check env fs3 t3 = Return (Some err)"
    by simp_all
  from sync_check_failed [OF st c] s
  have "r = Some (''Config check failed: '' @ err)" "fs' = fst (deferred_Remove env t3 temp fs3)"
    by simp_all
  with same ne d d3 show ?thesis by (simp add: deferred_Remove_other)
qed

end
